theory Spec2Isabelle
  imports Complex_Main
begin

section \<open>Python strings\<close>

text \<open>
  A Python \<open>str\<close> is a sequence of Unicode code points; a code point is a natural
  number here. \<open>U\<close> turns an ASCII literal into such a sequence, and the code points
  beyond ASCII are written as numbers (\<open>0xE9\<close> is e-acute, \<open>0x2022\<close> the bullet).
\<close>

type_synonym ustr = "nat list"

definition U :: "string \<Rightarrow> ustr" where
  "U s = map of_char s"

text \<open>\<open>s.startswith(w)\<close> and the substring test \<open>w in s\<close>.\<close>

fun startswith :: "ustr \<Rightarrow> ustr \<Rightarrow> bool" where
  "startswith s [] = True"
| "startswith [] (p # ps) = False"
| "startswith (c # cs) (p # ps) = (c = p \<and> startswith cs ps)"

fun str_in :: "ustr \<Rightarrow> ustr \<Rightarrow> bool" where
  "str_in w [] = (w = [])"
| "str_in w (c # cs) = (startswith (c # cs) w \<or> str_in w cs)"

text \<open>\<open>any(word in s for word in words)\<close>.\<close>

definition any_in :: "ustr list \<Rightarrow> ustr \<Rightarrow> bool" where
  "any_in words s = list_ex (\<lambda>word. str_in word s) words"

text \<open>
  \<open>str.isspace\<close> of one code point, as CPython decides it: the characters that
  \<open>str.strip()\<close> removes from both ends.
\<close>

definition is_space :: "nat \<Rightarrow> bool" where
  "is_space c =
     ((0x09 \<le> c \<and> c \<le> 0x0D) \<or> (0x1C \<le> c \<and> c \<le> 0x20) \<or> c = 0x85 \<or> c = 0xA0 \<or>
      c = 0x1680 \<or> (0x2000 \<le> c \<and> c \<le> 0x200A) \<or> c = 0x2028 \<or> c = 0x2029 \<or>
      c = 0x202F \<or> c = 0x205F \<or> c = 0x3000)"

definition strip :: "ustr \<Rightarrow> ustr" where
  "strip s = rev (dropWhile is_space (rev (dropWhile is_space s)))"

text \<open>\<open>s.split(sep)\<close> for a separator of one code point: never an empty list.\<close>

fun split_on :: "nat \<Rightarrow> ustr \<Rightarrow> ustr list" where
  "split_on sep [] = [[]]"
| "split_on sep (c # cs) =
     (if c = sep then [] # split_on sep cs
      else (case split_on sep cs of
              [] \<Rightarrow> [[c]]
            | w # ws \<Rightarrow> (c # w) # ws))"

text \<open>\<open>str(i)\<close> of a natural number: its decimal digits.\<close>

function str_of_nat :: "nat \<Rightarrow> ustr" where
  "str_of_nat n = (if n < 10 then [48 + n] else str_of_nat (n div 10) @ [48 + n mod 10])"
  by pat_completeness auto
termination
  by (relation "measure id") auto

text \<open>
  \<open>str.lower()\<close> is Python's own: full Unicode lowercasing. The functions below that
  call it take it as their first argument \<open>lower\<close>, so what is proved of them holds
  for Python's function. \<open>lower_latin1\<close> is that function on the strings whose code
  points are all below \<open>0x100\<close>; the concrete runs below use it.
\<close>

definition lower_cp :: "nat \<Rightarrow> nat" where
  "lower_cp c =
     (if (0x41 \<le> c \<and> c \<le> 0x5A) \<or> (0xC0 \<le> c \<and> c \<le> 0xDE \<and> c \<noteq> 0xD7) then c + 0x20 else c)"

definition lower_latin1 :: "ustr \<Rightarrow> ustr" where
  "lower_latin1 s = map lower_cp s"

section \<open>Exceptions and search results\<close>

text \<open>
  The exceptions the code tells apart: the two classes of the speech service's client
  library that \<open>speak_text\<close> catches by name, and every other \<open>Exception\<close>.
  Each carries its message, \<open>str(e)\<close>.
\<close>

datatype exn = BotoCoreError ustr | ClientError ustr | OtherException ustr

fun str_exn :: "exn \<Rightarrow> ustr" where
  "str_exn (BotoCoreError msg) = msg"
| "str_exn (ClientError msg) = msg"
| "str_exn (OtherException msg) = msg"

text \<open>
  A metadata value of the vector index is a string or something else (a number, a
  boolean, a list). A match has an identifier, a score (a float, read as the real
  number it denotes: the comparisons with \<open>0.7\<close> and \<open>0.8\<close> come out the same on every
  float) and a metadata dictionary, which may be absent.
\<close>

datatype jvalue = JStr ustr | JOther

record match =
  match_id :: ustr
  score :: real
  metadata :: "(ustr \<rightharpoonup> jvalue) option"

text \<open>\<open>sep.join(parts)\<close>: a TypeError when a part is not a string.\<close>

fun join :: "ustr \<Rightarrow> jvalue list \<Rightarrow> exn + ustr" where
  "join sep [] = Inr []"
| "join sep (JOther # ps) = Inl (OtherException (U ''sequence item: expected str instance''))"
| "join sep [JStr s] = Inr s"
| "join sep (JStr s # p # ps) =
     (case join sep (p # ps) of Inl e \<Rightarrow> Inl e | Inr r \<Rightarrow> Inr (s @ sep @ r))"

section \<open>Technical information extractor\<close>

record technical_data =
  procedures :: "ustr list"
  specifications :: "ustr list"
  warnings :: "ustr list"
  tools :: "ustr list"

definition procedure_keywords :: "ustr list" where
  "procedure_keywords = [U ''paso'', U ''procedimiento'', U ''instrucci'' @ [0xF3] @ U ''n'', U ''m'' @ [0xE9] @ U ''todo'']"

definition specification_keywords :: "ustr list" where
  "specification_keywords =
     [U ''especificaci'' @ [0xF3] @ U ''n'', U ''tolerancia'', U ''medida'', U ''valor'',
      U ''psi'', U ''rpm'', U ''voltios'']"

definition warning_keywords :: "ustr list" where
  "warning_keywords =
     [U ''advertencia'', U ''precauci'' @ [0xF3] @ U ''n'', U ''peligro'', U ''importante'', U ''nota'']"

definition tool_keywords :: "ustr list" where
  "tool_keywords = [U ''herramienta'', U ''equipo'', U ''llave'', U ''medidor'']"

text \<open>The body of the loop over the lines, on the dictionary built so far.\<close>

definition extract_line :: "(ustr \<Rightarrow> ustr) \<Rightarrow> technical_data \<Rightarrow> ustr \<Rightarrow> technical_data" where
  "extract_line lower technical_data line0 =
     (let line = strip line0 in
      if line = [] then technical_data
      else if any_in procedure_keywords (lower line) then
        technical_data\<lparr>procedures := procedures technical_data @ [line]\<rparr>
      else if any_in specification_keywords (lower line) then
        technical_data\<lparr>specifications := specifications technical_data @ [line]\<rparr>
      else if any_in warning_keywords (lower line) then
        technical_data\<lparr>warnings := warnings technical_data @ [line]\<rparr>
      else if any_in tool_keywords (lower line) then
        technical_data\<lparr>tools := tools technical_data @ [line]\<rparr>
      else technical_data)"

definition extract_technical_info :: "(ustr \<Rightarrow> ustr) \<Rightarrow> ustr \<Rightarrow> technical_data" where
  "extract_technical_info lower context =
     foldl (extract_line lower)
       \<lparr>procedures = [], specifications = [], warnings = [], tools = []\<rparr>
       (split_on 0x0A context)"

section \<open>Category templates\<close>

text \<open>
  The two loops of the templates: \<open>for x in xs: response += f"(bullet) {x}\n"\<close> and
  \<open>for i, x in enumerate(xs, 1): response += f"{i}. {x}\n"\<close>.
\<close>

definition add_bullets :: "ustr \<Rightarrow> ustr list \<Rightarrow> ustr" where
  "add_bullets response xs =
     foldl (\<lambda>response x. response @ [0x2022] @ U '' '' @ x @ U ''\<newline>'') response xs"

definition add_numbered :: "ustr \<Rightarrow> ustr list \<Rightarrow> ustr" where
  "add_numbered response xs =
     foldl (\<lambda>response (i, x). response @ str_of_nat i @ U ''. '' @ x @ U ''\<newline>'')
       response (enumerate 1 xs)"

definition motor_checks :: ustr where
  "motor_checks =
     U ''**Verificaciones b'' @ [0xE1] @ U ''sicas del motor:**\<newline>'' @
     [0x2022] @ U '' Nivel de aceite (entre MIN y MAX en la varilla)\<newline>'' @
     [0x2022] @ U '' Temperatura del refrigerante (80-90'' @ [0xB0] @ U ''C operativo)\<newline>'' @
     [0x2022] @ U '' Presi'' @ [0xF3] @ U ''n de aceite (2-4 bar a 2000 RPM)\<newline>'' @
     [0x2022] @ U '' Estado de filtros (aire, combustible, aceite)\<newline>'' @
     U ''\<newline>'' @
     U ''**S'' @ [0xED] @ U ''ntomas de alerta:**\<newline>'' @
     [0x2022] @ U '' Luz de temperatura en tablero\<newline>'' @
     [0x2022] @ U '' Ruidos met'' @ [0xE1] @ U ''licos o golpeteo\<newline>'' @
     [0x2022] @ U '' P'' @ [0xE9] @ U ''rdida de potencia\<newline>'' @
     [0x2022] @ U '' Consumo excesivo de combustible''"

definition generate_motor_response_with_context :: "technical_data \<Rightarrow> real \<Rightarrow> ustr" where
  "generate_motor_response_with_context tech_info confidence =
     (let response = U ''**DIAGN'' @ [0xD3] @ U ''STICO DE MOTOR - Miguel Mec'' @ [0xE1] @ U ''nico**\<newline>\<newline>'';
          response =
            (if specifications tech_info \<noteq> [] then
               add_bullets (response @ U ''**Especificaciones t'' @ [0xE9] @ U ''cnicas:**\<newline>'')
                 (take 3 (specifications tech_info)) @ U ''\<newline>''
             else response);
          response =
            (if procedures tech_info \<noteq> [] then
               add_numbered (response @ U ''**Procedimiento recomendado:**\<newline>'')
                 (take 3 (procedures tech_info)) @ U ''\<newline>''
             else response);
          response = response @ motor_checks;
          response =
            (if warnings tech_info \<noteq> [] then
               add_bullets (response @ U ''\<newline>\<newline>**'' @ [0x26A0, 0xFE0F] @ U '' PRECAUCIONES IMPORTANTES:**\<newline>'')
                 (take 2 (warnings tech_info))
             else response)
      in response)"

definition brakes_checks :: ustr where
  "brakes_checks =
     U ''**Inspecci'' @ [0xF3] @ U ''n de frenos:**\<newline>'' @
     [0x2022] @ U '' Espesor de pastillas (m'' @ [0xED] @ U ''nimo 3mm)\<newline>'' @
     [0x2022] @ U '' Estado de discos (sin ranuras profundas)\<newline>'' @
     [0x2022] @ U '' Nivel de l'' @ [0xED] @ U ''quido de frenos (DOT 3 o DOT 4)\<newline>'' @
     [0x2022] @ U '' Flexibilidad de mangueras\<newline>'' @
     U ''\<newline>'' @
     U ''**Se'' @ [0xF1] @ U ''ales de mantenimiento:**\<newline>'' @
     [0x2022] @ U '' Chirrido al frenar (pastillas gastadas)\<newline>'' @
     [0x2022] @ U '' Vibraci'' @ [0xF3] @ U ''n en pedal (discos deformados)\<newline>'' @
     [0x2022] @ U '' Pedal esponjoso (aire en sistema)\<newline>'' @
     [0x2022] @ U '' Distancia de frenado aumentada''"

definition generate_brakes_response_with_context :: "technical_data \<Rightarrow> real \<Rightarrow> ustr" where
  "generate_brakes_response_with_context tech_info confidence =
     (let response = U ''**SISTEMA DE FRENOS - Miguel Mec'' @ [0xE1] @ U ''nico**\<newline>\<newline>'';
          response =
            (if procedures tech_info \<noteq> [] then
               add_numbered (response @ U ''**Procedimiento t'' @ [0xE9] @ U ''cnico:**\<newline>'')
                 (take 3 (procedures tech_info)) @ U ''\<newline>''
             else response);
          response = response @ brakes_checks;
          response =
            (if specifications tech_info \<noteq> [] then
               add_bullets (response @ U ''\<newline>**Especificaciones:**\<newline>'')
                 (take 2 (specifications tech_info))
             else response)
      in response)"

definition oil_checks :: ustr where
  "oil_checks =
     U ''**Cambio de aceite paso a paso:**\<newline>'' @
     U ''1. Motor tibio (no caliente) para mejor drenado\<newline>'' @
     U ''2. Drenar aceite usado completamente\<newline>'' @
     U ''3. Reemplazar filtro de aceite nuevo\<newline>'' @
     U ''4. Rellenar con aceite especificado\<newline>'' @
     U ''5. Verificar nivel despu'' @ [0xE9] @ U ''s de 5 minutos\<newline>'' @
     U ''\<newline>'' @
     U ''**Intervalos de mantenimiento:**\<newline>'' @
     [0x2022] @ U '' Aceite sint'' @ [0xE9] @ U ''tico: 10,000-15,000 km\<newline>'' @
     [0x2022] @ U '' Aceite convencional: 5,000-7,500 km\<newline>'' @
     [0x2022] @ U '' Filtro: cada cambio de aceite\<newline>'' @
     [0x2022] @ U '' Verificar nivel: semanalmente''"

definition generate_oil_response_with_context :: "technical_data \<Rightarrow> real \<Rightarrow> ustr" where
  "generate_oil_response_with_context tech_info confidence =
     (let response = U ''**SISTEMA DE LUBRICACI'' @ [0xD3] @ U ''N - Miguel Mec'' @ [0xE1] @ U ''nico**\<newline>\<newline>'';
          response =
            (if specifications tech_info \<noteq> [] then
               add_bullets (response @ U ''**Especificaciones del aceite:**\<newline>'')
                 (take 3 (specifications tech_info)) @ U ''\<newline>''
             else response);
          response = response @ oil_checks;
          response =
            (if procedures tech_info \<noteq> [] then
               add_bullets (response @ U ''\<newline>**Procedimientos adicionales:**\<newline>'')
                 (take 2 (procedures tech_info))
             else response)
      in response)"

definition electrical_checks :: ustr where
  "electrical_checks =
     U ''**Diagn'' @ [0xF3] @ U ''stico de bater'' @ [0xED] @ U ''a y alternador:**\<newline>'' @
     [0x2022] @ U '' Voltaje bater'' @ [0xED] @ U ''a en reposo: 12.6V\<newline>'' @
     [0x2022] @ U '' Voltaje con motor encendido: 13.8-14.4V\<newline>'' @
     [0x2022] @ U '' Densidad del electrolito: 1.265 g/cm'' @ [0xB3] @ U ''\<newline>'' @
     [0x2022] @ U '' Terminales limpios y apretados\<newline>'' @
     U ''\<newline>'' @
     U ''**Pruebas b'' @ [0xE1] @ U ''sicas:**\<newline>'' @
     U ''1. Mult'' @ [0xED] @ U ''metro en terminales de bater'' @ [0xED] @ U ''a\<newline>'' @
     U ''2. Prueba de carga (arranque del motor)\<newline>'' @
     U ''3. Verificar correa del alternador\<newline>'' @
     U ''4. Revisar conexiones a masa''"

definition generate_electrical_response_with_context :: "technical_data \<Rightarrow> real \<Rightarrow> ustr" where
  "generate_electrical_response_with_context tech_info confidence =
     (let response = U ''**SISTEMA EL'' @ [0xC9] @ U ''CTRICO - Miguel Mec'' @ [0xE1] @ U ''nico**\<newline>\<newline>'';
          response =
            (if specifications tech_info \<noteq> [] then
               add_bullets (response @ U ''**Especificaciones el'' @ [0xE9] @ U ''ctricas:**\<newline>'')
                 (take 3 (specifications tech_info)) @ U ''\<newline>''
             else response);
          response = response @ electrical_checks;
          response =
            (if procedures tech_info \<noteq> [] then
               add_bullets (response @ U ''\<newline>**Procedimientos espec'' @ [0xED] @ U ''ficos:**\<newline>'')
                 (take 2 (procedures tech_info))
             else response)
      in response)"

definition tires_checks :: ustr where
  "tires_checks =
     U ''**Presiones recomendadas (verificar etiqueta del veh'' @ [0xED] @ U ''culo):**\<newline>'' @
     [0x2022] @ U '' Neum'' @ [0xE1] @ U ''ticos delanteros: 32-35 PSI\<newline>'' @
     [0x2022] @ U '' Neum'' @ [0xE1] @ U ''ticos traseros: 30-33 PSI\<newline>'' @
     [0x2022] @ U '' Rueda de repuesto: 60 PSI\<newline>'' @
     [0x2022] @ U '' Verificaci'' @ [0xF3] @ U ''n: neum'' @ [0xE1] @ U ''tico fr'' @ [0xED] @ U ''o\<newline>'' @
     U ''\<newline>'' @
     U ''**Inspecci'' @ [0xF3] @ U ''n visual:**\<newline>'' @
     [0x2022] @ U '' Profundidad de banda (m'' @ [0xED] @ U ''nimo 1.6mm)\<newline>'' @
     [0x2022] @ U '' Desgaste uniforme en toda la banda\<newline>'' @
     [0x2022] @ U '' Grietas en flancos\<newline>'' @
     [0x2022] @ U '' Objetos clavados (clavos, tornillos)''"

definition generate_tires_response_with_context :: "technical_data \<Rightarrow> real \<Rightarrow> ustr" where
  "generate_tires_response_with_context tech_info confidence =
     (let response = U ''**NEUM'' @ [0xC1] @ U ''TICOS Y SUSPENSI'' @ [0xD3] @ U ''N - Miguel Mec'' @ [0xE1] @ U ''nico**\<newline>\<newline>'';
          response =
            (if specifications tech_info \<noteq> [] then
               add_bullets (response @ U ''**Especificaciones:**\<newline>'')
                 (take 3 (specifications tech_info)) @ U ''\<newline>''
             else response);
          response = response @ tires_checks
      in response)"

definition transmission_checks :: ustr where
  "transmission_checks =
     U ''**Mantenimiento de transmisi'' @ [0xF3] @ U ''n:**\<newline>'' @
     [0x2022] @ U '' Manual: Aceite cada 60,000 km\<newline>'' @
     [0x2022] @ U '' Autom'' @ [0xE1] @ U ''tica: Fluido cada 80,000 km\<newline>'' @
     [0x2022] @ U '' Embrague: Inspecci'' @ [0xF3] @ U ''n cada 40,000 km\<newline>'' @
     [0x2022] @ U '' Verificar fugas regularmente\<newline>'' @
     U ''\<newline>'' @
     U ''**S'' @ [0xED] @ U ''ntomas de problemas:**\<newline>'' @
     [0x2022] @ U '' Dificultad para cambiar marchas\<newline>'' @
     [0x2022] @ U '' Ruidos al cambiar\<newline>'' @
     [0x2022] @ U '' Embrague que patina\<newline>'' @
     [0x2022] @ U '' Tirones al acelerar''"

definition generate_transmission_response_with_context :: "technical_data \<Rightarrow> real \<Rightarrow> ustr" where
  "generate_transmission_response_with_context tech_info confidence =
     (let response = U ''**TRANSMISI'' @ [0xD3] @ U ''N - Miguel Mec'' @ [0xE1] @ U ''nico**\<newline>\<newline>'';
          response =
            (if procedures tech_info \<noteq> [] then
               add_bullets (response @ U ''**Procedimientos t'' @ [0xE9] @ U ''cnicos:**\<newline>'')
                 (take 3 (procedures tech_info)) @ U ''\<newline>''
             else response);
          response = response @ transmission_checks;
          response =
            (if specifications tech_info \<noteq> [] then
               add_bullets (response @ U ''\<newline>**Especificaciones:**\<newline>'')
                 (take 2 (specifications tech_info))
             else response)
      in response)"

definition general_checks :: ustr where
  "general_checks =
     U ''**Diagn'' @ [0xF3] @ U ''stico general recomendado:**\<newline>'' @
     U ''1. Inspecci'' @ [0xF3] @ U ''n visual completa\<newline>'' @
     U ''2. Verificaci'' @ [0xF3] @ U ''n de c'' @ [0xF3] @ U ''digos de error (OBD)\<newline>'' @
     U ''3. Pruebas espec'' @ [0xED] @ U ''ficas seg'' @ [0xFA] @ U ''n s'' @ [0xED] @ U ''ntomas\<newline>'' @
     U ''4. Consulta de manual t'' @ [0xE9] @ U ''cnico del veh'' @ [0xED] @ U ''culo\<newline>'' @
     U ''\<newline>'' @
     U ''**Herramientas b'' @ [0xE1] @ U ''sicas necesarias:**\<newline>'' @
     [0x2022] @ U '' Mult'' @ [0xED] @ U ''metro digital\<newline>'' @
     [0x2022] @ U '' Scanner OBD2\<newline>'' @
     [0x2022] @ U '' Juego de llaves m'' @ [0xE9] @ U ''tricas\<newline>'' @
     [0x2022] @ U '' Man'' @ [0xF3] @ U ''metros de presi'' @ [0xF3] @ U ''n''"

definition general_recommendation :: ustr where
  "general_recommendation =
     U ''\<newline>\<newline>'' @ [0x26A0, 0xFE0F] @ U '' **Recomendaci'' @ [0xF3] @ U ''n:** Para un diagn'' @ [0xF3] @ U ''stico m'' @ [0xE1] @ U ''s preciso, es recomendable una inspecci'' @ [0xF3] @ U ''n f'' @ [0xED] @ U ''sica del veh'' @ [0xED] @ U ''culo.''"

definition generate_general_response_with_context ::
    "technical_data \<Rightarrow> ustr \<Rightarrow> real \<Rightarrow> ustr" where
  "generate_general_response_with_context tech_info query confidence =
     (let response = U ''**CONSULTA T'' @ [0xC9] @ U ''CNICA - Miguel Mec'' @ [0xE1] @ U ''nico**\<newline>\<newline>'';
          response =
            (if procedures tech_info \<noteq> [] then
               add_bullets (response @ U ''**Informaci'' @ [0xF3] @ U ''n t'' @ [0xE9] @ U ''cnica relevante:**\<newline>'')
                 (take 3 (procedures tech_info)) @ U ''\<newline>''
             else response);
          response = response @ general_checks;
          response =
            (if specifications tech_info \<noteq> [] then
               add_bullets (response @ U ''\<newline>**Datos t'' @ [0xE9] @ U ''cnicos:**\<newline>'')
                 (take 2 (specifications tech_info))
             else response);
          response = (if confidence < 0.8 then response @ general_recommendation else response)
      in response)"

section \<open>Response synthesizer\<close>

definition motor_words :: "ustr list" where
  "motor_words =
     [U ''motor'', U ''encender'', U ''arrancar'', U ''temperatura'', U ''sobrecalentamiento'', U ''rpm'']"

definition brakes_words :: "ustr list" where
  "brakes_words = [U ''frenos'', U ''frenar'', U ''pastillas'', U ''disco'', U ''pedal'']"

definition oil_words :: "ustr list" where
  "oil_words = [U ''aceite'', U ''lubricante'', U ''cambio'', U ''viscosidad'', U ''filtro'']"

definition electrical_words :: "ustr list" where
  "electrical_words =
     [U ''bater'' @ [0xED] @ U ''a'', U ''el'' @ [0xE9] @ U ''ctrico'', U ''corriente'', U ''alternador'', U ''voltaje'']"

definition tires_words :: "ustr list" where
  "tires_words =
     [U ''llantas'', U ''neum'' @ [0xE1] @ U ''ticos'', U ''presi'' @ [0xF3] @ U ''n'', U ''inflado'', U ''desgaste'']"

definition transmission_words :: "ustr list" where
  "transmission_words =
     [U ''transmisi'' @ [0xF3] @ U ''n'', U ''caja'', U ''cambios'', U ''embrague'', U ''autom'' @ [0xE1] @ U ''tica'']"

definition generate_mechanical_response ::
    "(ustr \<Rightarrow> ustr) \<Rightarrow> ustr \<Rightarrow> ustr \<Rightarrow> real \<Rightarrow> ustr" where
  "generate_mechanical_response lower query context confidence_score =
     (let query_lower = lower query;
          key_info = extract_technical_info lower context
      in if any_in motor_words query_lower then
           generate_motor_response_with_context key_info confidence_score
         else if any_in brakes_words query_lower then
           generate_brakes_response_with_context key_info confidence_score
         else if any_in oil_words query_lower then
           generate_oil_response_with_context key_info confidence_score
         else if any_in electrical_words query_lower then
           generate_electrical_response_with_context key_info confidence_score
         else if any_in tires_words query_lower then
           generate_tires_response_with_context key_info confidence_score
         else if any_in transmission_words query_lower then
           generate_transmission_response_with_context key_info confidence_score
         else generate_general_response_with_context key_info query confidence_score)"

definition low_confidence_motor :: ustr where
  "low_confidence_motor =
     U ''Bas'' @ [0xE1] @ U ''ndome en mi experiencia como mec'' @ [0xE1] @ U ''nico, para problemas de motor necesito m'' @ [0xE1] @ U ''s informaci'' @ [0xF3] @ U ''n espec'' @ [0xED] @ U ''fica:\<newline>'' @
     U ''\<newline>'' @
     U ''**S'' @ [0xED] @ U ''ntomas comunes a revisar:**\<newline>'' @
     U ''- '' @ [0xBF] @ U ''El motor enciende pero no mantiene el ralent'' @ [0xED] @ U ''?\<newline>'' @
     U ''- '' @ [0xBF] @ U ''Hay humo de alg'' @ [0xFA] @ U ''n color espec'' @ [0xED] @ U ''fico?\<newline>'' @
     U ''- '' @ [0xBF] @ U ''La temperatura sube anormalmente?\<newline>'' @
     U ''- '' @ [0xBF] @ U ''Escuchas ruidos extra'' @ [0xF1] @ U ''os?\<newline>'' @
     U ''\<newline>'' @
     U ''**Primeras verificaciones:**\<newline>'' @
     U ''- Nivel de aceite y refrigerante\<newline>'' @
     U ''- Estado de la bater'' @ [0xED] @ U ''a (12.6V en reposo)\<newline>'' @
     U ''- Conexiones el'' @ [0xE9] @ U ''ctricas limpias\<newline>'' @
     U ''- Filtros de aire y combustible\<newline>'' @
     U ''\<newline>'' @
     [0xBF] @ U ''Podr'' @ [0xED] @ U ''as describir exactamente qu'' @ [0xE9] @ U '' s'' @ [0xED] @ U ''ntomas presenta el veh'' @ [0xED] @ U ''culo?''"

definition low_confidence_general :: ustr where
  "low_confidence_general =
     U ''Como mec'' @ [0xE1] @ U ''nico especializado, necesito m'' @ [0xE1] @ U ''s detalles para darte un diagn'' @ [0xF3] @ U ''stico preciso.\<newline>'' @
     U ''\<newline>'' @
     U ''**Por favor comparte:**\<newline>'' @
     U ''- Marca, modelo y a'' @ [0xF1] @ U ''o del veh'' @ [0xED] @ U ''culo\<newline>'' @
     U ''- S'' @ [0xED] @ U ''ntomas espec'' @ [0xED] @ U ''ficos que observas\<newline>'' @
     U ''- Cu'' @ [0xE1] @ U ''ndo ocurre el problema\<newline>'' @
     U ''- Sonidos, olores o se'' @ [0xF1] @ U ''ales visuales\<newline>'' @
     U ''- C'' @ [0xF3] @ U ''digos de error (si los hay)\<newline>'' @
     U ''\<newline>'' @
     U ''Mientras tanto, verifica:\<newline>'' @
     U ''- Niveles de fluidos (aceite, refrigerante, frenos)\<newline>'' @
     U ''- Estado de la bater'' @ [0xED] @ U ''a\<newline>'' @
     U ''- Presi'' @ [0xF3] @ U ''n de neum'' @ [0xE1] @ U ''ticos\<newline>'' @
     U ''\<newline>'' @
     [0xBF] @ U ''Qu'' @ [0xE9] @ U '' problema espec'' @ [0xED] @ U ''fico tiene tu veh'' @ [0xED] @ U ''culo?''"

definition low_confidence_words :: "ustr list" where
  "low_confidence_words = [U ''motor'', U ''arranque'', U ''temperatura'']"

definition generate_low_confidence_response :: "(ustr \<Rightarrow> ustr) \<Rightarrow> ustr \<Rightarrow> ustr" where
  "generate_low_confidence_response lower query =
     (let query_lower = lower query
      in if any_in low_confidence_words query_lower then low_confidence_motor
         else low_confidence_general)"

definition no_match_response :: ustr where
  "no_match_response =
     U ''No encontr'' @ [0xE9] @ U '' informaci'' @ [0xF3] @ U ''n espec'' @ [0xED] @ U ''fica sobre eso en mi base de conocimientos mec'' @ [0xE1] @ U ''nicos. \<newline>'' @
     U ''\<newline>'' @
     U ''Como mec'' @ [0xE1] @ U ''nico especializado, te recomiendo:\<newline>'' @
     U ''1. Proporciona m'' @ [0xE1] @ U ''s detalles sobre el problema (sonidos, s'' @ [0xED] @ U ''ntomas, modelo del veh'' @ [0xED] @ U ''culo)\<newline>'' @
     U ''2. Indica cu'' @ [0xE1] @ U ''ndo comenz'' @ [0xF3] @ U '' el problema\<newline>'' @
     U ''3. Menciona si hay c'' @ [0xF3] @ U ''digos de error en el tablero\<newline>'' @
     U ''\<newline>'' @
     [0xBF] @ U ''Podr'' @ [0xED] @ U ''as darme m'' @ [0xE1] @ U ''s informaci'' @ [0xF3] @ U ''n para ayudarte mejor?''"

definition error_response :: ustr where
  "error_response =
     U ''Lo siento, hubo un error t'' @ [0xE9] @ U ''cnico procesando tu consulta mec'' @ [0xE1] @ U ''nica. \<newline>'' @
     U ''\<newline>'' @
     U ''Por favor, intenta reformular tu pregunta o contacta directamente con un t'' @ [0xE9] @ U ''cnico especializado.''"

text \<open>
  The metadata text of one match, when it has one: the body of the loop that builds
  \<open>context_parts\<close>.
\<close>

definition context_part :: "match \<Rightarrow> jvalue list" where
  "context_part m =
     (case metadata m of
        None \<Rightarrow> []
      | Some md \<Rightarrow> (case md (U ''text'') of None \<Rightarrow> [] | Some v \<Rightarrow> [v]))"

text \<open>
  The body of the \<open>try\<close> of \<open>generate_response\<close>: \<open>Inl\<close> is an exception raised in
  it. \<open>context_matches\<close> is \<open>None\<close>, or the result object with its list of matches.
\<close>

definition generate_response_try ::
    "(ustr \<Rightarrow> ustr) \<Rightarrow> ustr \<Rightarrow> match list option \<Rightarrow> exn + ustr" where
  "generate_response_try lower query context_matches =
     (case context_matches of
        None \<Rightarrow> Inr no_match_response
      | Some [] \<Rightarrow> Inr no_match_response
      | Some (m # ms) \<Rightarrow>
          (case filter (\<lambda>match. score match > 0.7) (m # ms) of
             [] \<Rightarrow> Inr (generate_low_confidence_response lower query)
           | first # others \<Rightarrow>
               (let relevant_matches = first # others;
                    context_parts = concat (map context_part (take 3 relevant_matches))
                in case join (U ''\<newline>'') context_parts of
                     Inl e \<Rightarrow> Inl e
                   | Inr context \<Rightarrow>
                       Inr (generate_mechanical_response lower query context (score first)))))"

definition generate_response :: "(ustr \<Rightarrow> ustr) \<Rightarrow> ustr \<Rightarrow> match list option \<Rightarrow> ustr" where
  "generate_response lower query context_matches =
     (case generate_response_try lower query context_matches of
        Inl e \<Rightarrow> error_response
      | Inr response \<Rightarrow> response)"

section \<open>Speech synthesis fallback chain\<close>

text \<open>
  The text sent to the speech service: the markup of \<open>create_generative_ssml\<close>, the
  markup of \<open>create_ssml_text\<close>, or the plain text. Both markup builders are total
  string functions, so a request is described by which of them built its text.
\<close>

datatype polly_text = Create_generative_ssml ustr | Create_ssml_text ustr | Plain ustr

text \<open>The keyword arguments of one \<open>synthesize_speech\<close> call; \<open>None\<close> is an argument not passed.\<close>

record synthesize_request =
  Text :: polly_text
  TextType :: "ustr option"
  OutputFormat :: ustr
  VoiceId :: ustr
  Engine :: "ustr option"
  LanguageCode :: "ustr option"
  SampleRate :: "ustr option"

text \<open>
  The service client: a call raises, or returns a response whose audio stream raises
  when read or yields the audio bytes.
\<close>

type_synonym polly = "synthesize_request \<Rightarrow> exn + (exn + nat list)"

text \<open>
  What \<open>speak_text\<close> reads from its surroundings: the two credentials (an environment
  variable is unset or a string) and what \<open>boto3.client\<close> does when called.
\<close>

record speech_env =
  AWS_ACCESS_KEY :: "ustr option"
  AWS_SECRET_KEY :: "ustr option"
  boto3_client :: "exn + polly"

text \<open>Truth value of an environment variable: unset and the empty string are false.\<close>

definition truthy :: "ustr option \<Rightarrow> bool" where
  "truthy v = (case v of None \<Rightarrow> False | Some s \<Rightarrow> s \<noteq> [])"

text \<open>
  The three shapes of the JSON answer: the validation error with its status, the
  audio (the bytes read, which the answer carries in base64, and the \<open>engine\<close> tag,
  with \<open>useBrowserTTS\<close> false), and the client-side fallback (\<open>useBrowserTTS\<close> true,
  no audio, the text, and the \<open>error\<close> field when present).
\<close>

datatype speak_response =
    Speak_error ustr nat
  | Audio "nat list" ustr
  | Browser_TTS ustr "ustr option"

definition generative_request :: "ustr \<Rightarrow> synthesize_request" where
  "generative_request text =
     \<lparr>Text = Create_generative_ssml text, TextType = Some (U ''ssml''),
      OutputFormat = U ''mp3'', VoiceId = U ''Miguel'', Engine = Some (U ''generative''),
      LanguageCode = Some (U ''es-US''), SampleRate = Some (U ''24000'')\<rparr>"

definition neural_request :: "ustr \<Rightarrow> synthesize_request" where
  "neural_request text =
     \<lparr>Text = Create_ssml_text text, TextType = Some (U ''ssml''),
      OutputFormat = U ''mp3'', VoiceId = U ''Miguel'', Engine = Some (U ''neural''),
      LanguageCode = Some (U ''es-US''), SampleRate = None\<rparr>"

definition standard_request :: "ustr \<Rightarrow> synthesize_request" where
  "standard_request text =
     \<lparr>Text = Plain text, TextType = None,
      OutputFormat = U ''mp3'', VoiceId = U ''Miguel'', Engine = None,
      LanguageCode = None, SampleRate = None\<rparr>"

text \<open>\<open>polly.synthesize_speech(...)\<close> followed by \<open>response['AudioStream'].read()\<close>.\<close>

definition synthesize :: "polly \<Rightarrow> synthesize_request \<Rightarrow> exn + nat list" where
  "synthesize polly req = (case polly req of Inl e \<Rightarrow> Inl e | Inr stream \<Rightarrow> stream)"

text \<open>What \<open>except (BotoCoreError, ClientError)\<close> catches.\<close>

fun is_service_error :: "exn \<Rightarrow> bool" where
  "is_service_error (BotoCoreError msg) = True"
| "is_service_error (ClientError msg) = True"
| "is_service_error (OtherException msg) = False"

text \<open>
  \<open>speak_text\<close> from the text of the request on, a string, with the list of the
  \<open>synthesize_speech\<close> calls it made, in order. An exception that none of the
  inner handlers catches reaches the outer \<open>except Exception as e\<close>, which answers with
  the client-side fallback and \<open>str(e)\<close>.
\<close>

definition speak_text :: "speech_env \<Rightarrow> ustr \<Rightarrow> speak_response \<times> synthesize_request list" where
  "speak_text env text =
     (if text = [] then (Speak_error (U ''No text provided'') 400, [])
      else if \<not> truthy (AWS_ACCESS_KEY env) \<or> \<not> truthy (AWS_SECRET_KEY env) then
        (Browser_TTS text None, [])
      else
        (case boto3_client env of
           Inl e \<Rightarrow> (Browser_TTS text (Some (str_exn e)), [])
         | Inr polly \<Rightarrow>
             (case synthesize polly (generative_request text) of
                Inr audio_data \<Rightarrow> (Audio audio_data (U ''generative''), [generative_request text])
              | Inl generative_error \<Rightarrow>
                  if \<not> is_service_error generative_error then
                    (Browser_TTS text (Some (str_exn generative_error)), [generative_request text])
                  else
                    (case synthesize polly (neural_request text) of
                       Inr audio_data \<Rightarrow>
                         (Audio audio_data (U ''neural''),
                          [generative_request text, neural_request text])
                     | Inl neural_error \<Rightarrow>
                         if \<not> is_service_error neural_error then
                           (Browser_TTS text (Some (str_exn neural_error)),
                            [generative_request text, neural_request text])
                         else
                           (case synthesize polly (standard_request text) of
                              Inr audio_data \<Rightarrow>
                                (Audio audio_data (U ''standard''),
                                 [generative_request text, neural_request text,
                                  standard_request text])
                            | Inl fallback_error \<Rightarrow>
                                (Browser_TTS text (Some (str_exn neural_error)),
                                 [generative_request text, neural_request text,
                                  standard_request text]))))))"

section \<open>Similarity search and chat\<close>

text \<open>
  The two global handles that \<open>query_pinecone\<close> reads. \<open>model\<close> is \<open>None\<close> until the
  embedding model is loaded, and then maps a text to what
  \<open>model.encode(clean_text_for_embedding(text)).tolist()\<close> gives or raises. \<open>index\<close> is
  tested with \<open>not index\<close> and then queried: when set, it maps an embedding and
  \<open>top_k\<close> to the matches of the remote query, or raises. (Before the index is
  initialised the module binds the name to the page handler of the same name, whose
  \<open>query\<close> raises: a function that returns \<open>Inl\<close>.) Every exception inside
  \<open>get_embedding\<close> and \<open>query_pinecone\<close> is caught there and turned into \<open>None\<close>.
\<close>

record search_env =
  index :: "(real list \<Rightarrow> nat \<Rightarrow> exn + match list) option"
  model :: "(ustr \<Rightarrow> exn + real list) option"

definition get_embedding :: "search_env \<Rightarrow> ustr \<Rightarrow> real list option" where
  "get_embedding env text =
     (case model env of
        None \<Rightarrow> None
      | Some encode \<Rightarrow> (case encode text of Inl e \<Rightarrow> None | Inr embedding \<Rightarrow> Some embedding))"

definition query_pinecone :: "search_env \<Rightarrow> ustr \<Rightarrow> nat \<Rightarrow> match list option" where
  "query_pinecone env query top_k =
     (case index env of
        None \<Rightarrow> None
      | Some index_query \<Rightarrow>
          (case get_embedding env query of
             None \<Rightarrow> None
           | Some query_embedding \<Rightarrow>
               if query_embedding = [] then None
               else (case index_query query_embedding top_k of
                       Inl e \<Rightarrow> None
                     | Inr matches \<Rightarrow> Some matches)))"

definition greeting_words :: "ustr list" where
  "greeting_words =
     [U ''hola'', U ''buenos d'' @ [0xED] @ U ''as'', U ''buenas tardes'', U ''saludos'', U ''iniciar'', U ''empezar'']"

definition greeting_response :: ustr where
  "greeting_response =
     [0xA1] @ U ''Hola! Soy Miguel, tu mec'' @ [0xE1] @ U ''nico especializado en veh'' @ [0xED] @ U ''culos. Tengo acceso a una amplia base de conocimientos t'' @ [0xE9] @ U ''cnicos y manuales de mec'' @ [0xE1] @ U ''nica automotriz.\<newline>'' @
     U ''\<newline>'' @
     U ''**Puedo ayudarte con:**\<newline>'' @
     [0x2022] @ U '' Diagn'' @ [0xF3] @ U ''stico de problemas del motor\<newline>'' @
     [0x2022] @ U '' Mantenimiento preventivo y correctivo\<newline>'' @
     [0x2022] @ U '' Sistema de frenos y suspensi'' @ [0xF3] @ U ''n\<newline>'' @
     [0x2022] @ U '' Diagn'' @ [0xF3] @ U ''stico el'' @ [0xE9] @ U ''ctrico y electr'' @ [0xF3] @ U ''nico\<newline>'' @
     [0x2022] @ U '' Transmisi'' @ [0xF3] @ U ''n manual y autom'' @ [0xE1] @ U ''tica\<newline>'' @
     [0x2022] @ U '' Sistema de refrigeraci'' @ [0xF3] @ U ''n y lubricaci'' @ [0xF3] @ U ''n\<newline>'' @
     [0x2022] @ U '' Neum'' @ [0xE1] @ U ''ticos y alineaci'' @ [0xF3] @ U ''n\<newline>'' @
     U ''\<newline>'' @
     U ''**Para un mejor diagn'' @ [0xF3] @ U ''stico, comparte:**\<newline>'' @
     U ''- Marca, modelo y a'' @ [0xF1] @ U ''o del veh'' @ [0xED] @ U ''culo\<newline>'' @
     U ''- S'' @ [0xED] @ U ''ntomas espec'' @ [0xED] @ U ''ficos que observas\<newline>'' @
     U ''- C'' @ [0xF3] @ U ''digos de error (si los tienes)\<newline>'' @
     U ''\<newline>'' @
     [0xBF] @ U ''Qu'' @ [0xE9] @ U '' problema tiene tu veh'' @ [0xED] @ U ''culo?''"

definition chat_no_data_response :: ustr where
  "chat_no_data_response =
     U ''Como mec'' @ [0xE1] @ U ''nico, no encuentro informaci'' @ [0xF3] @ U ''n espec'' @ [0xED] @ U ''fica sobre eso en mi base de conocimientos actual.\<newline>'' @
     U ''\<newline>'' @
     U ''**Te puedo ayudar de manera general:**\<newline>'' @
     U ''- Describe el problema con m'' @ [0xE1] @ U ''s detalle\<newline>'' @
     U ''- '' @ [0xBF] @ U ''Qu'' @ [0xE9] @ U '' s'' @ [0xED] @ U ''ntomas espec'' @ [0xED] @ U ''ficos observas?\<newline>'' @
     U ''- '' @ [0xBF] @ U ''Cu'' @ [0xE1] @ U ''ndo comenz'' @ [0xF3] @ U '' el problema?\<newline>'' @
     U ''- '' @ [0xBF] @ U ''Hay sonidos, olores o luces de advertencia?\<newline>'' @
     U ''\<newline>'' @
     U ''**Mientras tanto, verifica:**\<newline>'' @
     [0x2022] @ U '' Niveles de fluidos (aceite, refrigerante, frenos)\<newline>'' @
     [0x2022] @ U '' Estado de la bater'' @ [0xED] @ U ''a (12.6V en reposo)\<newline>'' @
     [0x2022] @ U '' Presi'' @ [0xF3] @ U ''n de neum'' @ [0xE1] @ U ''ticos seg'' @ [0xFA] @ U ''n especificaci'' @ [0xF3] @ U ''n\<newline>'' @
     [0x2022] @ U '' C'' @ [0xF3] @ U ''digos de error en el tablero\<newline>'' @
     U ''\<newline>'' @
     [0xBF] @ U ''Podr'' @ [0xED] @ U ''as darme m'' @ [0xE1] @ U ''s informaci'' @ [0xF3] @ U ''n espec'' @ [0xED] @ U ''fica del problema?''"

text \<open>
  The JSON answer of \<open>chat\<close>: the error with its status, or the response text with
  the \<open>end_call\<close> flag. \<open>chat\<close> is modelled from the message of the request on, a
  string. Nothing it calls raises (both \<open>query_pinecone\<close> and \<open>generate_response\<close>
  catch every exception), so its own handler, which answers with status 500, has no
  branch here.
\<close>

datatype chat_response = Chat_error ustr nat | Chat_ok ustr bool

definition chat :: "(ustr \<Rightarrow> ustr) \<Rightarrow> search_env \<Rightarrow> ustr \<Rightarrow> chat_response" where
  "chat lower env message =
     (if message = [] then Chat_error (U ''No message provided'') 400
      else
        (let message_lower = lower message
         in if any_in greeting_words message_lower then Chat_ok greeting_response False
            else
              (case query_pinecone env message 5 of
                 Some (m # ms) \<Rightarrow> Chat_ok (generate_response lower message (Some (m # ms))) False
               | _ \<Rightarrow> Chat_ok chat_no_data_response False)))"

section \<open>The specification's vocabulary\<close>

text \<open>
  The definitions of this section follow the specification's words, not the code: the
  theorems below compare the code with them.
\<close>

text \<open>
  The domain categories, the ordered list of (category, keyword set) pairs, and the
  first pair whose keyword set has a member in the lowercased query; the general
  category when there is none.
\<close>

datatype category = Cat_Engine | Cat_Brakes | Cat_Lubrication | Cat_Electrical | Cat_Tires | Cat_Transmission | Cat_General

definition category_priority :: "(category \<times> ustr list) list" where
  "category_priority =
     [(Cat_Engine, motor_words), (Cat_Brakes, brakes_words), (Cat_Lubrication, oil_words),
      (Cat_Electrical, electrical_words), (Cat_Tires, tires_words), (Cat_Transmission, transmission_words)]"

definition select_category :: "(ustr \<Rightarrow> ustr) \<Rightarrow> ustr \<Rightarrow> category" where
  "select_category lower query =
     (case find (\<lambda>(c, words). any_in words (lower query)) category_priority of
        None \<Rightarrow> Cat_General
      | Some (c, words) \<Rightarrow> c)"

fun category_template :: "category \<Rightarrow> technical_data \<Rightarrow> ustr \<Rightarrow> real \<Rightarrow> ustr" where
  "category_template Cat_Engine info query confidence =
     generate_motor_response_with_context info confidence"
| "category_template Cat_Brakes info query confidence =
     generate_brakes_response_with_context info confidence"
| "category_template Cat_Lubrication info query confidence =
     generate_oil_response_with_context info confidence"
| "category_template Cat_Electrical info query confidence =
     generate_electrical_response_with_context info confidence"
| "category_template Cat_Tires info query confidence =
     generate_tires_response_with_context info confidence"
| "category_template Cat_Transmission info query confidence =
     generate_transmission_response_with_context info confidence"
| "category_template Cat_General info query confidence =
     generate_general_response_with_context info query confidence"

text \<open>
The title line that each template begins with.
\<close>

fun category_header :: "category \<Rightarrow> ustr" where
  "category_header Cat_Engine = U ''**DIAGN'' @ [0xD3] @ U ''STICO DE MOTOR - Miguel Mec'' @ [0xE1] @ U ''nico**\<newline>\<newline>''"
| "category_header Cat_Brakes = U ''**SISTEMA DE FRENOS - Miguel Mec'' @ [0xE1] @ U ''nico**\<newline>\<newline>''"
| "category_header Cat_Lubrication = U ''**SISTEMA DE LUBRICACI'' @ [0xD3] @ U ''N - Miguel Mec'' @ [0xE1] @ U ''nico**\<newline>\<newline>''"
| "category_header Cat_Electrical = U ''**SISTEMA EL'' @ [0xC9] @ U ''CTRICO - Miguel Mec'' @ [0xE1] @ U ''nico**\<newline>\<newline>''"
| "category_header Cat_Tires = U ''**NEUM'' @ [0xC1] @ U ''TICOS Y SUSPENSI'' @ [0xD3] @ U ''N - Miguel Mec'' @ [0xE1] @ U ''nico**\<newline>\<newline>''"
| "category_header Cat_Transmission = U ''**TRANSMISI'' @ [0xD3] @ U ''N - Miguel Mec'' @ [0xE1] @ U ''nico**\<newline>\<newline>''"
| "category_header Cat_General = U ''**CONSULTA T'' @ [0xC9] @ U ''CNICA - Miguel Mec'' @ [0xE1] @ U ''nico**\<newline>\<newline>''"

text \<open>
  The four line categories in their priority order, the category of a line (the first
  whose keyword set has a member in the lowercased line, if any), and the trimmed
  non-empty lines of a text.
\<close>

datatype line_category = Procedure | Specification | Warning | Tool

definition line_priority :: "(line_category \<times> ustr list) list" where
  "line_priority =
     [(Procedure, procedure_keywords), (Specification, specification_keywords),
      (Warning, warning_keywords), (Tool, tool_keywords)]"

definition classify_line :: "(ustr \<Rightarrow> ustr) \<Rightarrow> ustr \<Rightarrow> line_category option" where
  "classify_line lower line =
     (case find (\<lambda>(c, keywords). any_in keywords (lower line)) line_priority of
        None \<Rightarrow> None
      | Some (c, keywords) \<Rightarrow> Some c)"

text \<open>
The categories whose keyword list has a member in the lowercased line, all of them.
\<close>

definition matched_categories :: "(ustr \<Rightarrow> ustr) \<Rightarrow> ustr \<Rightarrow> line_category list" where
  "matched_categories lower line =
     map fst (filter (\<lambda>(c, keywords). any_in keywords (lower line)) line_priority)"

definition content_lines :: "ustr \<Rightarrow> ustr list" where
  "content_lines context = filter (\<lambda>line. line \<noteq> []) (map strip (split_on 0x0A context))"

text \<open>
  A bulleted list, a numbered list, and a block that is left out when the sequence it
  shows is empty.
\<close>

definition bullet_list :: "ustr list \<Rightarrow> ustr" where
  "bullet_list xs = concat (map (\<lambda>x. [0x2022, 0x20] @ x @ [0x0A]) xs)"

definition numbered_list :: "ustr list \<Rightarrow> ustr" where
  "numbered_list xs =
     concat (map (\<lambda>(i, x). str_of_nat i @ [0x2E, 0x20] @ x @ [0x0A]) (enumerate 1 xs))"

definition unless_empty :: "ustr list \<Rightarrow> ustr \<Rightarrow> ustr" where
  "unless_empty xs block = (if xs = [] then [] else block)"

section \<open>Example inputs\<close>

subsection \<open>Queries and matches\<close>

text \<open>The concrete inputs of the runs below.\<close>

definition example_query :: ustr where
  "example_query = U ''El MOTOR hace ruido al frenar, revise los frenos''"

definition example_text :: ustr where
  "example_text =
     U ''Paso 1: revisar buj'' @ [0xED] @ U ''as\<newline>'' @
     U ''  PSI recomendado: 32 \<newline>'' @
     U ''\<newline>'' @
     U ''Nota: motor fr'' @ [0xED] @ U ''o''"

definition example_match :: match where
  "example_match =
     \<lparr>match_id = U ''doc1'', score = 0.85, metadata = Some [U ''text'' \<mapsto> JStr example_text]\<rparr>"

definition weak_match :: match where
  "weak_match =
     \<lparr>match_id = U ''doc2'', score = 0.7, metadata = Some [U ''text'' \<mapsto> JStr example_text]\<rparr>"

definition bare_match :: match where
  "bare_match = \<lparr>match_id = U ''doc3'', score = 0.91, metadata = None\<rparr>"

definition low_match :: match where
  "low_match = \<lparr>match_id = U ''doc4'', score = 0.31, metadata = Some [U ''text'' \<mapsto> JStr (U ''Valor: 12.6 voltios'')]\<rparr>"

definition untexted_match :: match where
  "untexted_match =
     \<lparr>match_id = U ''doc5'', score = 0.8, metadata = Some [U ''source'' \<mapsto> JStr (U ''manual'')]\<rparr>"

subsection \<open>Passages and extracted information\<close>

definition four_lines :: ustr where
  "four_lines =
     U ''Paso 1: aflojar las tuercas\<newline>'' @
     U ''  Presi'' @ [0xF3] @ U ''n recomendada: 32 PSI  \<newline>'' @
     U ''\<newline>'' @
     U ''PELIGRO: motor caliente\<newline>'' @
     U ''Usar llave de cruz\<newline>'' @
     U ''Consultar el manual''"

definition overlapping_lines :: ustr where
  "overlapping_lines =
     U ''Paso 1: aflojar las tuercas\<newline>'' @
     U ''Presi'' @ [0xF3] @ U ''n recomendada: 32 PSI\<newline>'' @
     U ''Nota: respetar el valor de apriete\<newline>'' @
     U ''Usar llave de cruz''"

definition shared_line :: ustr where
  "shared_line =
     U ''Paso 1: ajustar al valor indicado\<newline>'' @
     U ''Nota: usar guantes\<newline>'' @
     U ''Usar llave de cruz''"

definition crowded_info :: technical_data where
  "crowded_info =
     \<lparr>procedures = [U ''Paso 1: aflojar'', U ''Paso 2: retirar'', U ''Paso 3: limpiar'',
                    U ''Paso 4: montar''],
      specifications = [U ''Valor A: 32 PSI'', U ''Valor B: 2 mm'', U ''Valor C: 12 voltios''],
      warnings = [U ''Peligro: piezas calientes''],
      tools = [U ''Llave de cruz'']\<rparr>"

definition empty_info :: technical_data where
  "empty_info = \<lparr>procedures = [], specifications = [], warnings = [], tools = []\<rparr>"

subsection \<open>Speech services\<close>

definition spoken_text :: ustr where
  "spoken_text = U ''Revise el nivel de aceite.''"

definition third_tier_polly :: polly where
  "third_tier_polly req =
     (if Engine req = Some (U ''generative'') then
        Inl (ClientError (U ''generative engine not supported''))
      else if Engine req = Some (U ''neural'') then
        Inr (Inl (BotoCoreError (U ''stream closed'')))
      else Inr (Inr [0x49, 0x44, 0x33]))"

definition first_tier_polly :: polly where
  "first_tier_polly req = Inr (Inr [0x49, 0x44, 0x33])"

definition second_tier_polly :: polly where
  "second_tier_polly req =
     (if Engine req = Some (U ''generative'') then
        Inl (ClientError (U ''generative engine not supported''))
      else Inr (Inr [0x49, 0x44, 0x33]))"

definition failing_polly :: polly where
  "failing_polly req =
     (if Engine req = Some (U ''generative'') then Inl (ClientError (U ''first error''))
      else if Engine req = Some (U ''neural'') then Inl (ClientError (U ''second error''))
      else Inl (BotoCoreError (U ''third error'')))"

definition crashing_polly :: polly where
  "crashing_polly req =
     (if Engine req = Some (U ''generative'') then Inl (OtherException (U ''unexpected''))
      else Inr (Inr [0x49, 0x44, 0x33]))"

definition second_tier_crash_polly :: polly where
  "second_tier_crash_polly req =
     (if Engine req = Some (U ''generative'') then Inl (BotoCoreError (U ''first error''))
      else if Engine req = Some (U ''neural'') then Inr (Inl (OtherException (U ''unexpected'')))
      else Inr (Inr [0x49, 0x44, 0x33]))"

definition third_tier_crash_polly :: polly where
  "third_tier_crash_polly req =
     (if Engine req = Some (U ''generative'') then Inl (ClientError (U ''first error''))
      else if Engine req = Some (U ''neural'') then Inl (ClientError (U ''second error''))
      else Inl (OtherException (U ''unexpected'')))"

definition speech_env_with :: "polly \<Rightarrow> speech_env" where
  "speech_env_with polly =
     \<lparr>AWS_ACCESS_KEY = Some (U ''AKIAEXAMPLE''), AWS_SECRET_KEY = Some (U ''secret''),
      boto3_client = Inr polly\<rparr>"

definition no_credentials_env :: speech_env where
  "no_credentials_env =
     \<lparr>AWS_ACCESS_KEY = None, AWS_SECRET_KEY = Some (U ''secret''),
      boto3_client = Inr third_tier_polly\<rparr>"

subsection \<open>Search environments\<close>

definition example_message :: ustr where
  "example_message = U ''Ruido raro al girar''"

definition offline_env :: search_env where
  "offline_env = \<lparr>index = None, model = None\<rparr>"

definition fixed_encoder :: "ustr \<Rightarrow> exn + real list" where
  "fixed_encoder text = Inr [0.12, -0.5]"

definition empty_index :: "real list \<Rightarrow> nat \<Rightarrow> exn + match list" where
  "empty_index vector top_k = Inr []"

definition raising_index :: "real list \<Rightarrow> nat \<Rightarrow> exn + match list" where
  "raising_index vector top_k = Inl (OtherException (U ''connection timed out''))"

definition raising_encoder :: "ustr \<Rightarrow> exn + real list" where
  "raising_encoder text = Inl (OtherException (U ''out of memory''))"

definition empty_index_env :: search_env where
  "empty_index_env = \<lparr>index = Some empty_index, model = Some fixed_encoder\<rparr>"

definition unreachable_index_env :: search_env where
  "unreachable_index_env = \<lparr>index = Some raising_index, model = Some fixed_encoder\<rparr>"

definition broken_model_env :: search_env where
  "broken_model_env = \<lparr>index = Some empty_index, model = Some raising_encoder\<rparr>"

section \<open>Properties\<close>

lemmas string_defs = U_def any_in_def strip_def is_space_def lower_latin1_def lower_cp_def

lemmas keyword_defs = procedure_keywords_def specification_keywords_def warning_keywords_def
  tool_keywords_def motor_words_def brakes_words_def oil_words_def electrical_words_def
  tires_words_def transmission_words_def low_confidence_words_def greeting_words_def

lemmas extract_defs = extract_technical_info_def extract_line_def

lemmas response_defs = generate_response_def generate_response_try_def context_part_def
  generate_mechanical_response_def generate_low_confidence_response_def

lemmas request_defs = generative_request_def neural_request_def standard_request_def

subsection \<open>The templates as skeletons with optional lists\<close>

lemma foldl_append_concat:
  "foldl (\<lambda>acc x. acc @ f x) acc xs = acc @ concat (map f xs)"
  by (induction xs arbitrary: acc) simp_all

lemma add_bullets_eq: "add_bullets response xs = response @ bullet_list xs"
  unfolding add_bullets_def bullet_list_def
  using foldl_append_concat[of "\<lambda>x. [0x2022, 0x20] @ x @ [0x0A]" response xs]
  by (simp add: U_def)

lemma add_numbered_eq: "add_numbered response xs = response @ numbered_list xs"
proof -
  have "(\<lambda>response (i, x). response @ str_of_nat i @ U ''. '' @ x @ U ''\<newline>'') =
        (\<lambda>acc p. acc @ (\<lambda>(i, x). str_of_nat i @ [0x2E, 0x20] @ x @ [0x0A]) p)"
    by (auto simp add: U_def fun_eq_iff)
  then show ?thesis
    unfolding add_numbered_def numbered_list_def
    using foldl_append_concat[of "\<lambda>(i, x). str_of_nat i @ [0x2E, 0x20] @ x @ [0x0A]"
        response "enumerate 1 xs"]
    by simp
qed

lemma motor_template:
  "generate_motor_response_with_context tech_info confidence =
     U ''**DIAGN'' @ [0xD3] @ U ''STICO DE MOTOR - Miguel Mec'' @ [0xE1] @ U ''nico**\<newline>\<newline>'' @
     unless_empty (specifications tech_info)
       (U ''**Especificaciones t'' @ [0xE9] @ U ''cnicas:**\<newline>'' @
        bullet_list (take 3 (specifications tech_info)) @ U ''\<newline>'') @
     unless_empty (procedures tech_info)
       (U ''**Procedimiento recomendado:**\<newline>'' @
        numbered_list (take 3 (procedures tech_info)) @ U ''\<newline>'') @
     motor_checks @
     unless_empty (warnings tech_info)
       (U ''\<newline>\<newline>**'' @ [0x26A0, 0xFE0F] @ U '' PRECAUCIONES IMPORTANTES:**\<newline>'' @
        bullet_list (take 2 (warnings tech_info)))"
  by (simp add: generate_motor_response_with_context_def Let_def add_bullets_eq add_numbered_eq
      unless_empty_def)

lemma brakes_template:
  "generate_brakes_response_with_context tech_info confidence =
     U ''**SISTEMA DE FRENOS - Miguel Mec'' @ [0xE1] @ U ''nico**\<newline>\<newline>'' @
     unless_empty (procedures tech_info)
       (U ''**Procedimiento t'' @ [0xE9] @ U ''cnico:**\<newline>'' @
        numbered_list (take 3 (procedures tech_info)) @ U ''\<newline>'') @
     brakes_checks @
     unless_empty (specifications tech_info)
       (U ''\<newline>**Especificaciones:**\<newline>'' @
        bullet_list (take 2 (specifications tech_info)))"
  by (simp add: generate_brakes_response_with_context_def Let_def add_bullets_eq
      add_numbered_eq unless_empty_def)

lemma oil_template:
  "generate_oil_response_with_context tech_info confidence =
     U ''**SISTEMA DE LUBRICACI'' @ [0xD3] @ U ''N - Miguel Mec'' @ [0xE1] @ U ''nico**\<newline>\<newline>'' @
     unless_empty (specifications tech_info)
       (U ''**Especificaciones del aceite:**\<newline>'' @
        bullet_list (take 3 (specifications tech_info)) @ U ''\<newline>'') @
     oil_checks @
     unless_empty (procedures tech_info)
       (U ''\<newline>**Procedimientos adicionales:**\<newline>'' @
        bullet_list (take 2 (procedures tech_info)))"
  by (simp add: generate_oil_response_with_context_def Let_def add_bullets_eq unless_empty_def)

lemma electrical_template:
  "generate_electrical_response_with_context tech_info confidence =
     U ''**SISTEMA EL'' @ [0xC9] @ U ''CTRICO - Miguel Mec'' @ [0xE1] @ U ''nico**\<newline>\<newline>'' @
     unless_empty (specifications tech_info)
       (U ''**Especificaciones el'' @ [0xE9] @ U ''ctricas:**\<newline>'' @
        bullet_list (take 3 (specifications tech_info)) @ U ''\<newline>'') @
     electrical_checks @
     unless_empty (procedures tech_info)
       (U ''\<newline>**Procedimientos espec'' @ [0xED] @ U ''ficos:**\<newline>'' @
        bullet_list (take 2 (procedures tech_info)))"
  by (simp add: generate_electrical_response_with_context_def Let_def add_bullets_eq
      unless_empty_def)

lemma tires_template:
  "generate_tires_response_with_context tech_info confidence =
     U ''**NEUM'' @ [0xC1] @ U ''TICOS Y SUSPENSI'' @ [0xD3] @ U ''N - Miguel Mec'' @ [0xE1] @ U ''nico**\<newline>\<newline>'' @
     unless_empty (specifications tech_info)
       (U ''**Especificaciones:**\<newline>'' @
        bullet_list (take 3 (specifications tech_info)) @ U ''\<newline>'') @
     tires_checks"
  by (simp add: generate_tires_response_with_context_def Let_def add_bullets_eq unless_empty_def)

lemma transmission_template:
  "generate_transmission_response_with_context tech_info confidence =
     U ''**TRANSMISI'' @ [0xD3] @ U ''N - Miguel Mec'' @ [0xE1] @ U ''nico**\<newline>\<newline>'' @
     unless_empty (procedures tech_info)
       (U ''**Procedimientos t'' @ [0xE9] @ U ''cnicos:**\<newline>'' @
        bullet_list (take 3 (procedures tech_info)) @ U ''\<newline>'') @
     transmission_checks @
     unless_empty (specifications tech_info)
       (U ''\<newline>**Especificaciones:**\<newline>'' @
        bullet_list (take 2 (specifications tech_info)))"
  by (simp add: generate_transmission_response_with_context_def Let_def add_bullets_eq
      unless_empty_def)

lemma general_template:
  "generate_general_response_with_context tech_info query confidence =
     U ''**CONSULTA T'' @ [0xC9] @ U ''CNICA - Miguel Mec'' @ [0xE1] @ U ''nico**\<newline>\<newline>'' @
     unless_empty (procedures tech_info)
       (U ''**Informaci'' @ [0xF3] @ U ''n t'' @ [0xE9] @ U ''cnica relevante:**\<newline>'' @
        bullet_list (take 3 (procedures tech_info)) @ U ''\<newline>'') @
     general_checks @
     unless_empty (specifications tech_info)
       (U ''\<newline>**Datos t'' @ [0xE9] @ U ''cnicos:**\<newline>'' @
        bullet_list (take 2 (specifications tech_info))) @
     (if confidence < 0.8 then general_recommendation else [])"
  by (simp add: generate_general_response_with_context_def Let_def add_bullets_eq
      unless_empty_def)

lemma crowded_info_fields:
  "procedures crowded_info =
     [U ''Paso 1: aflojar'', U ''Paso 2: retirar'', U ''Paso 3: limpiar'', U ''Paso 4: montar'']"
  "specifications crowded_info =
     [U ''Valor A: 32 PSI'', U ''Valor B: 2 mm'', U ''Valor C: 12 voltios'']"
  "warnings crowded_info = [U ''Peligro: piezas calientes'']"
  "procedures empty_info = []" "specifications empty_info = []" "warnings empty_info = []"
  by (simp_all add: crowded_info_def empty_info_def)

lemma numbered_three:
  "numbered_list [a, b, c] =
     U ''1. '' @ a @ U ''\<newline>2. '' @ b @ U ''\<newline>3. '' @ c @ U ''\<newline>''"
  by (simp add: numbered_list_def enumerate_eq_zip upt_rec U_def)

lemma bullet_some:
  "bullet_list [a] = [0x2022] @ U '' '' @ a @ U ''\<newline>''"
  "bullet_list [a, b] = [0x2022] @ U '' '' @ a @ U ''\<newline>'' @ [0x2022] @ U '' '' @ b @ U ''\<newline>''"
  "bullet_list [a, b, c] =
     [0x2022] @ U '' '' @ a @ U ''\<newline>'' @ [0x2022] @ U '' '' @ b @ U ''\<newline>'' @
     [0x2022] @ U '' '' @ c @ U ''\<newline>''"
  by (simp_all add: bullet_list_def U_def)

text \<open>
  Claim C5, as amended. Each template is a fixed skeleton with lists of the extracted
  information put in, and a list with its heading is left out when its sequence is empty.
  Which lists, and how many items at most, depends on the template: engine, 3
  specifications, 3 numbered procedures and 2 warnings; brakes, 3 numbered procedures and
  2 specifications; lubrication and electrical, 3 specifications and 2 procedures; tires,
  3 specifications and nothing else; transmission and general, 3 procedures and 2
  specifications, the general one ending with a recommendation when the confidence is
  below 0.8. Only the engine template shows warnings.
\<close>

theorem template_lists:
  "(generate_motor_response_with_context tech_info confidence =
      U ''**DIAGN'' @ [0xD3] @ U ''STICO DE MOTOR - Miguel Mec'' @ [0xE1] @ U ''nico**\<newline>\<newline>'' @
      unless_empty (specifications tech_info)
        (U ''**Especificaciones t'' @ [0xE9] @ U ''cnicas:**\<newline>'' @
         bullet_list (take 3 (specifications tech_info)) @ U ''\<newline>'') @
      unless_empty (procedures tech_info)
        (U ''**Procedimiento recomendado:**\<newline>'' @
         numbered_list (take 3 (procedures tech_info)) @ U ''\<newline>'') @
      motor_checks @
      unless_empty (warnings tech_info)
        (U ''\<newline>\<newline>**'' @ [0x26A0, 0xFE0F] @ U '' PRECAUCIONES IMPORTANTES:**\<newline>'' @
         bullet_list (take 2 (warnings tech_info)))) \<and>
   (generate_brakes_response_with_context tech_info confidence =
      U ''**SISTEMA DE FRENOS - Miguel Mec'' @ [0xE1] @ U ''nico**\<newline>\<newline>'' @
      unless_empty (procedures tech_info)
        (U ''**Procedimiento t'' @ [0xE9] @ U ''cnico:**\<newline>'' @
         numbered_list (take 3 (procedures tech_info)) @ U ''\<newline>'') @
      brakes_checks @
      unless_empty (specifications tech_info)
        (U ''\<newline>**Especificaciones:**\<newline>'' @
         bullet_list (take 2 (specifications tech_info)))) \<and>
   (generate_oil_response_with_context tech_info confidence =
      U ''**SISTEMA DE LUBRICACI'' @ [0xD3] @ U ''N - Miguel Mec'' @ [0xE1] @ U ''nico**\<newline>\<newline>'' @
      unless_empty (specifications tech_info)
        (U ''**Especificaciones del aceite:**\<newline>'' @
         bullet_list (take 3 (specifications tech_info)) @ U ''\<newline>'') @
      oil_checks @
      unless_empty (procedures tech_info)
        (U ''\<newline>**Procedimientos adicionales:**\<newline>'' @
         bullet_list (take 2 (procedures tech_info)))) \<and>
   (generate_electrical_response_with_context tech_info confidence =
      U ''**SISTEMA EL'' @ [0xC9] @ U ''CTRICO - Miguel Mec'' @ [0xE1] @ U ''nico**\<newline>\<newline>'' @
      unless_empty (specifications tech_info)
        (U ''**Especificaciones el'' @ [0xE9] @ U ''ctricas:**\<newline>'' @
         bullet_list (take 3 (specifications tech_info)) @ U ''\<newline>'') @
      electrical_checks @
      unless_empty (procedures tech_info)
        (U ''\<newline>**Procedimientos espec'' @ [0xED] @ U ''ficos:**\<newline>'' @
         bullet_list (take 2 (procedures tech_info)))) \<and>
   (generate_tires_response_with_context tech_info confidence =
      U ''**NEUM'' @ [0xC1] @ U ''TICOS Y SUSPENSI'' @ [0xD3] @ U ''N - Miguel Mec'' @ [0xE1] @ U ''nico**\<newline>\<newline>'' @
      unless_empty (specifications tech_info)
        (U ''**Especificaciones:**\<newline>'' @
         bullet_list (take 3 (specifications tech_info)) @ U ''\<newline>'') @
      tires_checks) \<and>
   (generate_transmission_response_with_context tech_info confidence =
      U ''**TRANSMISI'' @ [0xD3] @ U ''N - Miguel Mec'' @ [0xE1] @ U ''nico**\<newline>\<newline>'' @
      unless_empty (procedures tech_info)
        (U ''**Procedimientos t'' @ [0xE9] @ U ''cnicos:**\<newline>'' @
         bullet_list (take 3 (procedures tech_info)) @ U ''\<newline>'') @
      transmission_checks @
      unless_empty (specifications tech_info)
        (U ''\<newline>**Especificaciones:**\<newline>'' @
         bullet_list (take 2 (specifications tech_info)))) \<and>
   (generate_general_response_with_context tech_info query confidence =
      U ''**CONSULTA T'' @ [0xC9] @ U ''CNICA - Miguel Mec'' @ [0xE1] @ U ''nico**\<newline>\<newline>'' @
      unless_empty (procedures tech_info)
        (U ''**Informaci'' @ [0xF3] @ U ''n t'' @ [0xE9] @ U ''cnica relevante:**\<newline>'' @
         bullet_list (take 3 (procedures tech_info)) @ U ''\<newline>'') @
      general_checks @
      unless_empty (specifications tech_info)
        (U ''\<newline>**Datos t'' @ [0xE9] @ U ''cnicos:**\<newline>'' @
         bullet_list (take 2 (specifications tech_info))) @
      (if confidence < 0.8 then general_recommendation else []))"
  using motor_template brakes_template oil_template electrical_template tires_template
    transmission_template general_template
  by blast

theorem template_lists_witness:
  "generate_motor_response_with_context crowded_info 0.9 =
     U ''**DIAGN'' @ [0xD3] @ U ''STICO DE MOTOR - Miguel Mec'' @ [0xE1] @ U ''nico**\<newline>\<newline>'' @
     U ''**Especificaciones t'' @ [0xE9] @ U ''cnicas:**\<newline>'' @
     [0x2022] @ U '' Valor A: 32 PSI\<newline>'' @
     [0x2022] @ U '' Valor B: 2 mm\<newline>'' @
     [0x2022] @ U '' Valor C: 12 voltios\<newline>'' @
     U ''\<newline>'' @
     U ''**Procedimiento recomendado:**\<newline>'' @
     U ''1. Paso 1: aflojar\<newline>'' @
     U ''2. Paso 2: retirar\<newline>'' @
     U ''3. Paso 3: limpiar\<newline>'' @
     U ''\<newline>'' @
     motor_checks @
     U ''\<newline>\<newline>**'' @ [0x26A0, 0xFE0F] @ U '' PRECAUCIONES IMPORTANTES:**\<newline>'' @
     [0x2022] @ U '' Peligro: piezas calientes\<newline>'' \<and>
   generate_tires_response_with_context crowded_info 0.9 =
     U ''**NEUM'' @ [0xC1] @ U ''TICOS Y SUSPENSI'' @ [0xD3] @ U ''N - Miguel Mec'' @ [0xE1] @ U ''nico**\<newline>\<newline>'' @
     U ''**Especificaciones:**\<newline>'' @
     [0x2022] @ U '' Valor A: 32 PSI\<newline>'' @
     [0x2022] @ U '' Valor B: 2 mm\<newline>'' @
     [0x2022] @ U '' Valor C: 12 voltios\<newline>'' @
     U ''\<newline>'' @
     tires_checks \<and>
   generate_brakes_response_with_context crowded_info 0.9 =
     U ''**SISTEMA DE FRENOS - Miguel Mec'' @ [0xE1] @ U ''nico**\<newline>\<newline>'' @
     U ''**Procedimiento t'' @ [0xE9] @ U ''cnico:**\<newline>'' @
     U ''1. Paso 1: aflojar\<newline>'' @
     U ''2. Paso 2: retirar\<newline>'' @
     U ''3. Paso 3: limpiar\<newline>'' @
     U ''\<newline>'' @
     brakes_checks @
     U ''\<newline>**Especificaciones:**\<newline>'' @
     [0x2022] @ U '' Valor A: 32 PSI\<newline>'' @
     [0x2022] @ U '' Valor B: 2 mm\<newline>'' \<and>
   generate_general_response_with_context empty_info [] 0.75 =
     U ''**CONSULTA T'' @ [0xC9] @ U ''CNICA - Miguel Mec'' @ [0xE1] @ U ''nico**\<newline>\<newline>'' @ general_checks @ general_recommendation"
proof -
  note t = template_lists[of crowded_info "0.9" "[]"]
  note e = template_lists[of empty_info "0.75" "[]"]
  have 1: "generate_motor_response_with_context crowded_info 0.9 =
     U ''**DIAGN'' @ [0xD3] @ U ''STICO DE MOTOR - Miguel Mec'' @ [0xE1] @ U ''nico**\<newline>\<newline>'' @
     U ''**Especificaciones t'' @ [0xE9] @ U ''cnicas:**\<newline>'' @
     [0x2022] @ U '' Valor A: 32 PSI\<newline>'' @
     [0x2022] @ U '' Valor B: 2 mm\<newline>'' @
     [0x2022] @ U '' Valor C: 12 voltios\<newline>'' @
     U ''\<newline>'' @
     U ''**Procedimiento recomendado:**\<newline>'' @
     U ''1. Paso 1: aflojar\<newline>'' @
     U ''2. Paso 2: retirar\<newline>'' @
     U ''3. Paso 3: limpiar\<newline>'' @
     U ''\<newline>'' @
     motor_checks @
     U ''\<newline>\<newline>**'' @ [0x26A0, 0xFE0F] @ U '' PRECAUCIONES IMPORTANTES:**\<newline>'' @
     [0x2022] @ U '' Peligro: piezas calientes\<newline>''"
    using t
    by (simp add: crowded_info_fields unless_empty_def numbered_three bullet_some U_def)
  have 2: "generate_tires_response_with_context crowded_info 0.9 =
     U ''**NEUM'' @ [0xC1] @ U ''TICOS Y SUSPENSI'' @ [0xD3] @ U ''N - Miguel Mec'' @ [0xE1] @ U ''nico**\<newline>\<newline>'' @
     U ''**Especificaciones:**\<newline>'' @
     [0x2022] @ U '' Valor A: 32 PSI\<newline>'' @
     [0x2022] @ U '' Valor B: 2 mm\<newline>'' @
     [0x2022] @ U '' Valor C: 12 voltios\<newline>'' @
     U ''\<newline>'' @
     tires_checks"
    using t
    by (simp add: crowded_info_fields unless_empty_def numbered_three bullet_some U_def)
  have 3: "generate_brakes_response_with_context crowded_info 0.9 =
     U ''**SISTEMA DE FRENOS - Miguel Mec'' @ [0xE1] @ U ''nico**\<newline>\<newline>'' @
     U ''**Procedimiento t'' @ [0xE9] @ U ''cnico:**\<newline>'' @
     U ''1. Paso 1: aflojar\<newline>'' @
     U ''2. Paso 2: retirar\<newline>'' @
     U ''3. Paso 3: limpiar\<newline>'' @
     U ''\<newline>'' @
     brakes_checks @
     U ''\<newline>**Especificaciones:**\<newline>'' @
     [0x2022] @ U '' Valor A: 32 PSI\<newline>'' @
     [0x2022] @ U '' Valor B: 2 mm\<newline>''"
    using t
    by (simp add: crowded_info_fields unless_empty_def numbered_three bullet_some U_def)
  have 4: "generate_general_response_with_context empty_info [] 0.75 =
     U ''**CONSULTA T'' @ [0xC9] @ U ''CNICA - Miguel Mec'' @ [0xE1] @ U ''nico**\<newline>\<newline>'' @ general_checks @ general_recommendation"
    using e by (simp add: crowded_info_fields unless_empty_def)
  show ?thesis using 1 2 3 4 by blast
qed

text \<open>
  Claim C5 as stated fails. With four procedures, three specifications and one warning
  extracted, the tires template shows no procedure, and the brakes template shows the
  first two specifications only and no warning.
\<close>

theorem template_lists_counterexample:
  "length (procedures crowded_info) = 4 \<and> length (specifications crowded_info) = 3 \<and>
   length (warnings crowded_info) = 1 \<and>
   \<not> str_in (U ''Paso 1: aflojar'') (generate_tires_response_with_context crowded_info 0.9) \<and>
   str_in (U ''Valor B: 2 mm'') (generate_brakes_response_with_context crowded_info 0.9) \<and>
   \<not> str_in (U ''Valor C: 12 voltios'')
       (generate_brakes_response_with_context crowded_info 0.9) \<and>
   \<not> str_in (U ''Peligro: piezas calientes'')
       (generate_brakes_response_with_context crowded_info 0.9)"
proof -
  have l: "length (procedures crowded_info) = 4 \<and> length (specifications crowded_info) = 3 \<and>
      length (warnings crowded_info) = 1"
    by (simp add: crowded_info_fields)
  have 1: "\<not> str_in (U ''Paso 1: aflojar'')
      (generate_tires_response_with_context crowded_info 0.9)"
    by (simp add: tires_template crowded_info_fields unless_empty_def bullet_some
        tires_checks_def U_def)
  have 2: "str_in (U ''Valor B: 2 mm'')
      (generate_brakes_response_with_context crowded_info 0.9)"
    by (simp add: brakes_template crowded_info_fields unless_empty_def bullet_some
        numbered_three brakes_checks_def U_def)
  have 3: "\<not> str_in (U ''Valor C: 12 voltios'')
      (generate_brakes_response_with_context crowded_info 0.9)"
    by (simp add: brakes_template crowded_info_fields unless_empty_def bullet_some
        numbered_three brakes_checks_def U_def)
  have 4: "\<not> str_in (U ''Peligro: piezas calientes'')
      (generate_brakes_response_with_context crowded_info 0.9)"
    by (simp add: brakes_template crowded_info_fields unless_empty_def bullet_some
        numbered_three brakes_checks_def U_def)
  show ?thesis using l 1 2 3 4 by blast
qed

subsection \<open>The technical information extractor\<close>

lemma extract_empty:
  "extract_technical_info lower [] =
     \<lparr>procedures = [], specifications = [], warnings = [], tools = []\<rparr>"
  by (simp add: extract_technical_info_def extract_line_def strip_def)

lemma extract_line_classify:
  "extract_line lower td line0 =
     (if strip line0 = [] then td
      else case classify_line lower (strip line0) of
             None \<Rightarrow> td
           | Some Procedure \<Rightarrow> td\<lparr>procedures := procedures td @ [strip line0]\<rparr>
           | Some Specification \<Rightarrow> td\<lparr>specifications := specifications td @ [strip line0]\<rparr>
           | Some Warning \<Rightarrow> td\<lparr>warnings := warnings td @ [strip line0]\<rparr>
           | Some Tool \<Rightarrow> td\<lparr>tools := tools td @ [strip line0]\<rparr>)"
  by (simp add: extract_line_def classify_line_def line_priority_def Let_def)

lemma extract_line_fields:
  "procedures (extract_line lower td l) =
     procedures td @ filter (\<lambda>l. classify_line lower l = Some Procedure)
       (filter (\<lambda>line. line \<noteq> []) [strip l])"
  "specifications (extract_line lower td l) =
     specifications td @ filter (\<lambda>l. classify_line lower l = Some Specification)
       (filter (\<lambda>line. line \<noteq> []) [strip l])"
  "warnings (extract_line lower td l) =
     warnings td @ filter (\<lambda>l. classify_line lower l = Some Warning)
       (filter (\<lambda>line. line \<noteq> []) [strip l])"
  "tools (extract_line lower td l) =
     tools td @ filter (\<lambda>l. classify_line lower l = Some Tool)
       (filter (\<lambda>line. line \<noteq> []) [strip l])"
  by (cases "classify_line lower (strip l)";
      simp add: extract_line_classify split: line_category.splits)+

lemma foldl_extract_line:
  "foldl (extract_line lower) td ls =
     \<lparr>procedures = procedures td @
        filter (\<lambda>l. classify_line lower l = Some Procedure)
          (filter (\<lambda>line. line \<noteq> []) (map strip ls)),
      specifications = specifications td @
        filter (\<lambda>l. classify_line lower l = Some Specification)
          (filter (\<lambda>line. line \<noteq> []) (map strip ls)),
      warnings = warnings td @
        filter (\<lambda>l. classify_line lower l = Some Warning)
          (filter (\<lambda>line. line \<noteq> []) (map strip ls)),
      tools = tools td @
        filter (\<lambda>l. classify_line lower l = Some Tool)
          (filter (\<lambda>line. line \<noteq> []) (map strip ls))\<rparr>"
proof (induction ls arbitrary: td)
  case Nil
  then show ?case by simp
next
  case (Cons l ls)
  show ?case
    apply (simp only: foldl_Cons Cons extract_line_fields)
    apply simp
    done
qed

lemma extract_by_category:
  "extract_technical_info lower context =
     \<lparr>procedures = filter (\<lambda>l. classify_line lower l = Some Procedure) (content_lines context),
      specifications =
        filter (\<lambda>l. classify_line lower l = Some Specification) (content_lines context),
      warnings = filter (\<lambda>l. classify_line lower l = Some Warning) (content_lines context),
      tools = filter (\<lambda>l. classify_line lower l = Some Tool) (content_lines context)\<rparr>"
  by (simp add: extract_technical_info_def content_lines_def foldl_extract_line)

lemma classify_exclusive:
  assumes "length (matched_categories lower l) \<le> 1"
  shows "classify_line lower l = Some Procedure \<longleftrightarrow> any_in procedure_keywords (lower l)"
    and "classify_line lower l = Some Specification \<longleftrightarrow>
           any_in specification_keywords (lower l)"
    and "classify_line lower l = Some Warning \<longleftrightarrow> any_in warning_keywords (lower l)"
    and "classify_line lower l = Some Tool \<longleftrightarrow> any_in tool_keywords (lower l)"
  using assms
  by (auto simp add: classify_line_def matched_categories_def line_priority_def
      split: if_splits)

lemma extract_exclusive:
  assumes "\<forall>l\<in>set (content_lines context). length (matched_categories lower l) \<le> 1"
  shows "extract_technical_info lower context =
     \<lparr>procedures =
        filter (\<lambda>l. any_in procedure_keywords (lower l)) (content_lines context),
      specifications =
        filter (\<lambda>l. any_in specification_keywords (lower l)) (content_lines context),
      warnings = filter (\<lambda>l. any_in warning_keywords (lower l)) (content_lines context),
      tools = filter (\<lambda>l. any_in tool_keywords (lower l)) (content_lines context)\<rparr>"
proof -
  have "filter (\<lambda>l. classify_line lower l = Some Procedure) (content_lines context) =
      filter (\<lambda>l. any_in procedure_keywords (lower l)) (content_lines context)"
    using assms classify_exclusive(1) by (intro filter_cong) auto
  moreover have
    "filter (\<lambda>l. classify_line lower l = Some Specification) (content_lines context) =
      filter (\<lambda>l. any_in specification_keywords (lower l)) (content_lines context)"
    using assms classify_exclusive(2) by (intro filter_cong) auto
  moreover have "filter (\<lambda>l. classify_line lower l = Some Warning) (content_lines context) =
      filter (\<lambda>l. any_in warning_keywords (lower l)) (content_lines context)"
    using assms classify_exclusive(3) by (intro filter_cong) auto
  moreover have "filter (\<lambda>l. classify_line lower l = Some Tool) (content_lines context) =
      filter (\<lambda>l. any_in tool_keywords (lower l)) (content_lines context)"
    using assms classify_exclusive(4) by (intro filter_cong) auto
  ultimately show ?thesis by (simp add: extract_by_category)
qed

lemma content_lines_four:
  "content_lines four_lines =
     [U ''Paso 1: aflojar las tuercas'', U ''Presi'' @ [0xF3] @ U ''n recomendada: 32 PSI'',
      U ''PELIGRO: motor caliente'', U ''Usar llave de cruz'', U ''Consultar el manual'']"
  by (simp add: content_lines_def four_lines_def strip_def is_space_def U_def)

lemma content_lines_overlapping:
  "content_lines overlapping_lines =
     [U ''Paso 1: aflojar las tuercas'', U ''Presi'' @ [0xF3] @ U ''n recomendada: 32 PSI'',
      U ''Nota: respetar el valor de apriete'', U ''Usar llave de cruz'']"
  by (simp add: content_lines_def overlapping_lines_def strip_def is_space_def U_def)

lemma content_lines_shared:
  "content_lines shared_line =
     [U ''Paso 1: ajustar al valor indicado'', U ''Nota: usar guantes'',
      U ''Usar llave de cruz'']"
  by (simp add: content_lines_def shared_line_def strip_def is_space_def U_def)

lemma four_lines_exclusive:
  "\<forall>l\<in>set (content_lines four_lines). length (matched_categories lower_latin1 l) \<le> 1"
  by (simp add: content_lines_four matched_categories_def line_priority_def keyword_defs
      string_defs)

text \<open>
  Claim C4, as amended. \<open>extract_technical_info\<close> splits its input at the line breaks
  and, of the trimmed lines that are not empty, puts each, in its original case, into
  the sequence of the first of the categories procedures, specifications, warnings,
  tools whose keyword list has a member in the lowercased line; a line with no keyword
  goes nowhere. The empty input gives four empty sequences. When no line holds keywords
  of two categories, each sequence is exactly the list of the lines that hold a keyword
  of its category: one item where one line does, none where no line does.
\<close>

theorem extraction_by_priority:
  "extract_technical_info lower context =
     \<lparr>procedures = filter (\<lambda>l. classify_line lower l = Some Procedure) (content_lines context),
      specifications =
        filter (\<lambda>l. classify_line lower l = Some Specification) (content_lines context),
      warnings = filter (\<lambda>l. classify_line lower l = Some Warning) (content_lines context),
      tools = filter (\<lambda>l. classify_line lower l = Some Tool) (content_lines context)\<rparr> \<and>
   extract_technical_info lower [] =
     \<lparr>procedures = [], specifications = [], warnings = [], tools = []\<rparr> \<and>
   ((\<forall>l\<in>set (content_lines context). length (matched_categories lower l) \<le> 1) \<longrightarrow>
      extract_technical_info lower context =
        \<lparr>procedures =
           filter (\<lambda>l. any_in procedure_keywords (lower l)) (content_lines context),
         specifications =
           filter (\<lambda>l. any_in specification_keywords (lower l)) (content_lines context),
         warnings = filter (\<lambda>l. any_in warning_keywords (lower l)) (content_lines context),
         tools = filter (\<lambda>l. any_in tool_keywords (lower l)) (content_lines context)\<rparr>)"
  using extract_by_category[of lower "context"] extract_empty[of lower]
    extract_exclusive[of "context" lower]
  by blast

theorem extraction_by_priority_witness:
  "content_lines four_lines =
     [U ''Paso 1: aflojar las tuercas'', U ''Presi'' @ [0xF3] @ U ''n recomendada: 32 PSI'',
      U ''PELIGRO: motor caliente'', U ''Usar llave de cruz'', U ''Consultar el manual''] \<and>
   matched_categories lower_latin1 (U ''Paso 1: aflojar las tuercas'') = [Procedure] \<and>
   matched_categories lower_latin1 (U ''Presi'' @ [0xF3] @ U ''n recomendada: 32 PSI'') =
     [Specification] \<and>
   matched_categories lower_latin1 (U ''PELIGRO: motor caliente'') = [Warning] \<and>
   matched_categories lower_latin1 (U ''Usar llave de cruz'') = [Tool] \<and>
   matched_categories lower_latin1 (U ''Consultar el manual'') = [] \<and>
   extract_technical_info lower_latin1 four_lines =
     \<lparr>procedures = [U ''Paso 1: aflojar las tuercas''],
      specifications = [U ''Presi'' @ [0xF3] @ U ''n recomendada: 32 PSI''],
      warnings = [U ''PELIGRO: motor caliente''],
      tools = [U ''Usar llave de cruz'']\<rparr>"
proof -
  have m: "matched_categories lower_latin1 (U ''Paso 1: aflojar las tuercas'') = [Procedure] \<and>
      matched_categories lower_latin1 (U ''Presi'' @ [0xF3] @ U ''n recomendada: 32 PSI'') =
        [Specification] \<and>
      matched_categories lower_latin1 (U ''PELIGRO: motor caliente'') = [Warning] \<and>
      matched_categories lower_latin1 (U ''Usar llave de cruz'') = [Tool] \<and>
      matched_categories lower_latin1 (U ''Consultar el manual'') = []"
    by (simp add: matched_categories_def line_priority_def keyword_defs string_defs)
  have "extract_technical_info lower_latin1 four_lines =
      \<lparr>procedures =
         filter (\<lambda>l. any_in procedure_keywords (lower_latin1 l)) (content_lines four_lines),
       specifications =
         filter (\<lambda>l. any_in specification_keywords (lower_latin1 l)) (content_lines four_lines),
       warnings =
         filter (\<lambda>l. any_in warning_keywords (lower_latin1 l)) (content_lines four_lines),
       tools = filter (\<lambda>l. any_in tool_keywords (lower_latin1 l)) (content_lines four_lines)\<rparr>"
    using four_lines_exclusive extraction_by_priority[of lower_latin1 four_lines] by blast
  then have "extract_technical_info lower_latin1 four_lines =
     \<lparr>procedures = [U ''Paso 1: aflojar las tuercas''],
      specifications = [U ''Presi'' @ [0xF3] @ U ''n recomendada: 32 PSI''],
      warnings = [U ''PELIGRO: motor caliente''],
      tools = [U ''Usar llave de cruz'']\<rparr>"
    by (simp add: content_lines_four keyword_defs string_defs)
  then show ?thesis using m content_lines_four by blast
qed

text \<open>
  Claim C4 as stated fails. On four lines, one written for each category, the line for
  the warnings holds the keyword "nota" and also the specification keyword "valor", so
  it goes to the specifications, which get two items, and the warnings get none. And on
  three lines where every keyword list has a member in exactly one line, the line with
  "paso" and "valor" goes to the procedures, and the specifications get no item.
\<close>

theorem one_line_per_category_counterexample:
  "content_lines overlapping_lines =
     [U ''Paso 1: aflojar las tuercas'', U ''Presi'' @ [0xF3] @ U ''n recomendada: 32 PSI'',
      U ''Nota: respetar el valor de apriete'', U ''Usar llave de cruz''] \<and>
   any_in procedure_keywords (lower_latin1 (U ''Paso 1: aflojar las tuercas'')) \<and>
   any_in specification_keywords
     (lower_latin1 (U ''Presi'' @ [0xF3] @ U ''n recomendada: 32 PSI'')) \<and>
   any_in warning_keywords (lower_latin1 (U ''Nota: respetar el valor de apriete'')) \<and>
   any_in tool_keywords (lower_latin1 (U ''Usar llave de cruz'')) \<and>
   extract_technical_info lower_latin1 overlapping_lines =
     \<lparr>procedures = [U ''Paso 1: aflojar las tuercas''],
      specifications =
        [U ''Presi'' @ [0xF3] @ U ''n recomendada: 32 PSI'',
         U ''Nota: respetar el valor de apriete''],
      warnings = [],
      tools = [U ''Usar llave de cruz'']\<rparr> \<and>
   filter (\<lambda>l. any_in procedure_keywords (lower_latin1 l)) (content_lines shared_line) =
     [U ''Paso 1: ajustar al valor indicado''] \<and>
   filter (\<lambda>l. any_in specification_keywords (lower_latin1 l)) (content_lines shared_line) =
     [U ''Paso 1: ajustar al valor indicado''] \<and>
   filter (\<lambda>l. any_in warning_keywords (lower_latin1 l)) (content_lines shared_line) =
     [U ''Nota: usar guantes''] \<and>
   filter (\<lambda>l. any_in tool_keywords (lower_latin1 l)) (content_lines shared_line) =
     [U ''Usar llave de cruz''] \<and>
   extract_technical_info lower_latin1 shared_line =
     \<lparr>procedures = [U ''Paso 1: ajustar al valor indicado''],
      specifications = [],
      warnings = [U ''Nota: usar guantes''],
      tools = [U ''Usar llave de cruz'']\<rparr>"
proof -
  have k: "any_in procedure_keywords (lower_latin1 (U ''Paso 1: aflojar las tuercas'')) \<and>
      any_in specification_keywords
        (lower_latin1 (U ''Presi'' @ [0xF3] @ U ''n recomendada: 32 PSI'')) \<and>
      any_in warning_keywords (lower_latin1 (U ''Nota: respetar el valor de apriete'')) \<and>
      any_in tool_keywords (lower_latin1 (U ''Usar llave de cruz''))"
    by (simp add: keyword_defs string_defs)
  have e: "extract_technical_info lower_latin1 overlapping_lines =
     \<lparr>procedures = [U ''Paso 1: aflojar las tuercas''],
      specifications =
        [U ''Presi'' @ [0xF3] @ U ''n recomendada: 32 PSI'',
         U ''Nota: respetar el valor de apriete''],
      warnings = [],
      tools = [U ''Usar llave de cruz'']\<rparr>"
    by (simp add: extract_by_category content_lines_overlapping classify_line_def
        line_priority_def keyword_defs string_defs)
  have f: "filter (\<lambda>l. any_in procedure_keywords (lower_latin1 l)) (content_lines shared_line) =
        [U ''Paso 1: ajustar al valor indicado''] \<and>
      filter (\<lambda>l. any_in specification_keywords (lower_latin1 l)) (content_lines shared_line) =
        [U ''Paso 1: ajustar al valor indicado''] \<and>
      filter (\<lambda>l. any_in warning_keywords (lower_latin1 l)) (content_lines shared_line) =
        [U ''Nota: usar guantes''] \<and>
      filter (\<lambda>l. any_in tool_keywords (lower_latin1 l)) (content_lines shared_line) =
        [U ''Usar llave de cruz'']"
    by (simp add: content_lines_shared keyword_defs string_defs)
  have g: "extract_technical_info lower_latin1 shared_line =
     \<lparr>procedures = [U ''Paso 1: ajustar al valor indicado''],
      specifications = [],
      warnings = [U ''Nota: usar guantes''],
      tools = [U ''Usar llave de cruz'']\<rparr>"
    by (simp add: extract_by_category content_lines_shared classify_line_def
        line_priority_def keyword_defs string_defs)
  show ?thesis using k e f g content_lines_overlapping by blast
qed

subsection \<open>The confidence gate\<close>

lemma select_category_dispatch:
  "generate_mechanical_response lower query context confidence =
     category_template (select_category lower query) (extract_technical_info lower context)
       query confidence"
  by (simp add: generate_mechanical_response_def select_category_def category_priority_def Let_def)

lemma low_confidence_cases:
  "generate_low_confidence_response lower query \<in> {low_confidence_motor, low_confidence_general}"
  by (simp add: generate_low_confidence_response_def Let_def)

lemma filter_hd_in:
  "filter P xs = y # ys \<Longrightarrow> y \<in> set xs \<and> P y"
proof -
  assume a: "filter P xs = y # ys"
  have "y \<in> set (filter P xs)" unfolding a by simp
  then show ?thesis by simp
qed

lemma category_template_head:
  "\<exists>rest. category_template c info query confidence = 0x2A # 0x2A # rest"
  by (cases c)
    (simp_all add: motor_template brakes_template oil_template electrical_template
      tires_template transmission_template general_template U_def)

lemma fixed_template_heads:
  "hd no_match_response = 0x4E" "hd error_response = 0x4C"
  "hd low_confidence_motor = 0x42" "hd low_confidence_general = 0x43"
  by (simp_all add: no_match_response_def error_response_def low_confidence_motor_def
      low_confidence_general_def U_def)

lemma category_template_not_fixed:
  "category_template c info query confidence \<notin>
     {no_match_response, error_response, low_confidence_motor, low_confidence_general}"
proof -
  obtain rest where r: "category_template c info query confidence = 0x2A # 0x2A # rest"
    using category_template_head by blast
  have "hd (category_template c info query confidence) = 0x2A" unfolding r by simp
  then show ?thesis using fixed_template_heads by auto
qed

text \<open>
  Claim C1. Whatever the query and the matches, the response of \<open>generate_response\<close>
  is one of the four fixed texts (no match, technical error, the two low-confidence
  checklists), which show nothing of the retrieved passages, or it is the template of
  the query's category, and then some match of the set has a score above 0.7: no path
  reaches a category template without a match that passes the confidence gate.
\<close>

theorem confidence_gate:
  "generate_response lower query context_matches \<in>
      {no_match_response, error_response, low_confidence_motor, low_confidence_general} \<or>
   (\<exists>matches first context.
      context_matches = Some matches \<and> first \<in> set matches \<and> 0.7 < score first \<and>
      generate_response lower query context_matches =
        category_template (select_category lower query) (extract_technical_info lower context)
          query (score first))"
proof (cases "generate_response_try lower query context_matches")
  case (Inl e)
  then show ?thesis by (simp add: generate_response_def)
next
  case (Inr r)
  show ?thesis
  proof (cases context_matches)
    case None
    then show ?thesis by (simp add: generate_response_def generate_response_try_def)
  next
    case (Some matches)
    show ?thesis
    proof (cases "filter (\<lambda>match. score match > 0.7) matches")
      case Nil
      then show ?thesis using Some low_confidence_cases[of lower query]
        by (cases matches) (auto simp add: generate_response_def generate_response_try_def)
    next
      case (Cons first others)
      then have f: "first \<in> set matches \<and> 0.7 < score first"
        using filter_hd_in[of "\<lambda>match. score match > 0.7" matches first others] by simp
      from Cons have "matches \<noteq> []" by auto
      then obtain m ms where mm: "matches = m # ms" by (cases matches) auto
      from Inr Some Cons mm obtain ctx where
        "r = generate_mechanical_response lower query ctx (score first)"
        by (auto simp add: generate_response_try_def Let_def split: sum.splits)
      then show ?thesis using Inr Some f
        by (auto simp add: generate_response_def select_category_dispatch)
    qed
  qed
qed

lemma example_run:
  "generate_response_try lower_latin1 example_query (Some [weak_match, example_match, bare_match]) =
   Inr (generate_motor_response_with_context
     (extract_technical_info lower_latin1 example_text) 0.85)"
  by (simp add: string_defs motor_words_def Let_def example_query_def example_match_def
      weak_match_def bare_match_def response_defs)

theorem confidence_gate_witness:
  "generate_response lower_latin1 example_query (Some [weak_match, example_match, bare_match]) \<notin>
      {no_match_response, error_response, low_confidence_motor, low_confidence_general} \<and>
   (\<exists>matches first context.
      Some [weak_match, example_match, bare_match] = Some matches \<and>
      first \<in> set matches \<and> 0.7 < score first \<and>
      generate_response lower_latin1 example_query (Some [weak_match, example_match, bare_match]) =
        category_template (select_category lower_latin1 example_query)
          (extract_technical_info lower_latin1 context) example_query (score first))"
proof -
  have "generate_response lower_latin1 example_query
          (Some [weak_match, example_match, bare_match]) =
        category_template Cat_Engine (extract_technical_info lower_latin1 example_text)
          example_query 0.85"
    by (simp add: generate_response_def example_run)
  then have "generate_response lower_latin1 example_query
          (Some [weak_match, example_match, bare_match]) \<notin>
      {no_match_response, error_response, low_confidence_motor, low_confidence_general}"
    using category_template_not_fixed by metis
  then show ?thesis
    using confidence_gate[of lower_latin1 example_query
        "Some [weak_match, example_match, bare_match]"]
    by blast
qed

subsection \<open>Category selection\<close>

lemma category_template_header:
  "\<exists>rest. category_template c info query confidence = category_header c @ rest"
  by (cases c)
    (simp_all add: motor_template brakes_template oil_template electrical_template
      tires_template transmission_template general_template)

lemma category_header_take: "take 14 (category_header c @ rest) = take 14 (category_header c)"
  by (cases c) (simp_all add: U_def)

lemma category_header_inj:
  "take 14 (category_header c) = take 14 (category_header c') \<Longrightarrow> c = c'"
  by (cases c; cases c') (simp_all add: U_def)

lemma category_template_inj:
  assumes "category_template c info query confidence = category_template c' info' query' confidence'"
  shows "c = c'"
proof -
  obtain r where r: "category_template c info query confidence = category_header c @ r"
    using category_template_header by blast
  obtain r' where r': "category_template c' info' query' confidence' = category_header c' @ r'"
    using category_template_header by blast
  have "take 14 (category_header c @ r) = take 14 (category_header c' @ r')"
    using assms r r' by simp
  then show ?thesis using category_header_inj by (simp only: category_header_take)
qed

lemma select_engine: "any_in motor_words (lower query) \<Longrightarrow> select_category lower query = Cat_Engine"
  by (simp add: select_category_def category_priority_def)

lemma any_in_member: "w \<in> set ws \<Longrightarrow> str_in w s \<Longrightarrow> any_in ws s"
  by (auto simp add: any_in_def list_ex_iff)

lemma passing_match_response:
  assumes "filter (\<lambda>match. score match > 0.7) matches = first # others"
  shows "generate_response_try lower query (Some matches) =
     (case join (U ''\<newline>'') (concat (map context_part (take 3 (first # others)))) of
        Inl e \<Rightarrow> Inl e
      | Inr ctx \<Rightarrow> Inr (generate_mechanical_response lower query ctx (score first)))"
proof (cases matches)
  case Nil
  then show ?thesis using assms by simp
next
  case (Cons m ms)
  then show ?thesis using assms
    by (simp add: generate_response_try_def Let_def del: take_Cons')
qed

lemma gated_dispatch:
  assumes "\<exists>m\<in>set matches. 0.7 < score m"
  shows "(\<exists>e. generate_response_try lower query (Some matches) = Inl e) \<or>
         (\<exists>first ctx. first \<in> set matches \<and> 0.7 < score first \<and>
            generate_response_try lower query (Some matches) =
              Inr (category_template (select_category lower query)
                     (extract_technical_info lower ctx) query (score first)))"
proof -
  from assms have "filter (\<lambda>match. score match > 0.7) matches \<noteq> []"
    by (auto simp add: filter_empty_conv)
  then obtain first others where
    f: "filter (\<lambda>match. score match > 0.7) matches = first # others"
    by (cases "filter (\<lambda>match. score match > 0.7) matches") auto
  then have fin: "first \<in> set matches \<and> 0.7 < score first"
    using filter_hd_in[of "\<lambda>match. score match > 0.7" matches first others] by simp
  show ?thesis
  proof (cases "join (U ''\<newline>'') (concat (map context_part (take 3 (first # others))))")
    case (Inl e)
    then have "generate_response_try lower query (Some matches) = Inl e"
      by (simp only: passing_match_response[OF f] sum.case)
    then show ?thesis by blast
  next
    case (Inr ctx)
    then have "generate_response_try lower query (Some matches) =
        Inr (generate_mechanical_response lower query ctx (score first))"
      by (simp only: passing_match_response[OF f] sum.case)
    then show ?thesis using fin by (auto simp add: select_category_dispatch)
  qed
qed

text \<open>
  Claim C2. \<open>generate_mechanical_response\<close> answers with the template of exactly one
  category: the first, in the order engine, brakes, lubrication, electrical, tires,
  transmission, whose keyword list has a member in the lowercased query, and the general
  template when there is none. Two templates of different categories never give the same
  text. When some match has a score above 0.7, \<open>generate_response\<close> returns that template
  (or an exception is raised while the context is joined). A query whose lowercased text
  holds an engine keyword and a brakes keyword, such as "motor" and "frenos", gets the
  engine template, never the brakes one.
\<close>

theorem category_selection:
  "generate_mechanical_response lower query context confidence =
     category_template (select_category lower query) (extract_technical_info lower context)
       query confidence \<and>
   ((\<exists>m\<in>set matches. 0.7 < score m) \<longrightarrow>
      (\<exists>e. generate_response_try lower query (Some matches) = Inl e) \<or>
      (\<exists>first ctx. first \<in> set matches \<and> 0.7 < score first \<and>
         generate_response_try lower query (Some matches) =
           Inr (category_template (select_category lower query)
                  (extract_technical_info lower ctx) query (score first)))) \<and>
   (category_template c info query confidence = category_template c' info' query' confidence'
      \<longrightarrow> c = c') \<and>
   (any_in motor_words (lower query) \<and> any_in brakes_words (lower query) \<longrightarrow>
      select_category lower query = Cat_Engine \<and>
      generate_mechanical_response lower query context confidence =
        generate_motor_response_with_context (extract_technical_info lower context) confidence \<and>
      generate_mechanical_response lower query context confidence \<noteq>
        generate_brakes_response_with_context info confidence) \<and>
   (str_in (U ''motor'') (lower query) \<longrightarrow> any_in motor_words (lower query)) \<and>
   (str_in (U ''frenos'') (lower query) \<longrightarrow> any_in brakes_words (lower query))"
proof -
  have d: "generate_mechanical_response lower query context confidence =
     category_template (select_category lower query) (extract_technical_info lower context)
       query confidence"
    by (rule select_category_dispatch)
  have i: "category_template c info query confidence =
      category_template c' info' query' confidence' \<longrightarrow> c = c'"
    using category_template_inj by blast
  have m: "str_in (U ''motor'') (lower query) \<Longrightarrow> any_in motor_words (lower query)"
    using any_in_member[of "U ''motor''" motor_words "lower query"]
    by (simp add: motor_words_def)
  have b: "str_in (U ''frenos'') (lower query) \<Longrightarrow> any_in brakes_words (lower query)"
    using any_in_member[of "U ''frenos''" brakes_words "lower query"]
    by (simp add: brakes_words_def)
  have n: "category_template Cat_Engine (extract_technical_info lower context) query confidence \<noteq>
      category_template Cat_Brakes info query confidence"
    using category_template_inj by blast
  have s: "any_in motor_words (lower query) \<Longrightarrow> select_category lower query = Cat_Engine"
    by (rule select_engine)
  show ?thesis using d i m b n s gated_dispatch[of matches lower query] by auto
qed

theorem category_selection_witness:
  "str_in (U ''motor'') (lower_latin1 example_query) \<and>
   str_in (U ''frenos'') (lower_latin1 example_query) \<and>
   any_in motor_words (lower_latin1 example_query) \<and>
   any_in brakes_words (lower_latin1 example_query) \<and>
   select_category lower_latin1 example_query = Cat_Engine \<and>
   generate_mechanical_response lower_latin1 example_query example_text 0.85 =
     generate_motor_response_with_context (extract_technical_info lower_latin1 example_text) 0.85 \<and>
   generate_mechanical_response lower_latin1 example_query example_text 0.85 \<noteq>
     generate_brakes_response_with_context (extract_technical_info lower_latin1 example_text) 0.85 \<and>
   example_match \<in> set [weak_match, example_match, bare_match] \<and> 0.7 < score example_match \<and>
   generate_response_try lower_latin1 example_query
       (Some [weak_match, example_match, bare_match]) =
     Inr (generate_motor_response_with_context
            (extract_technical_info lower_latin1 example_text) 0.85)"
proof -
  have h: "str_in (U ''motor'') (lower_latin1 example_query) \<and>
      str_in (U ''frenos'') (lower_latin1 example_query)"
    by (simp add: example_query_def string_defs)
  have p: "example_match \<in> set [weak_match, example_match, bare_match] \<and>
      0.7 < score example_match"
    by (simp add: example_match_def)
  note t = category_selection[of lower_latin1 example_query example_text "0.85"
        "[weak_match, example_match, bare_match]"
        Cat_Engine "extract_technical_info lower_latin1 example_text" Cat_Engine
        "extract_technical_info lower_latin1 example_text" example_query "0.85"]
  have k: "any_in motor_words (lower_latin1 example_query) \<and>
      any_in brakes_words (lower_latin1 example_query)"
    using h t by blast
  then have r: "select_category lower_latin1 example_query = Cat_Engine \<and>
      generate_mechanical_response lower_latin1 example_query example_text 0.85 =
        generate_motor_response_with_context
          (extract_technical_info lower_latin1 example_text) 0.85 \<and>
      generate_mechanical_response lower_latin1 example_query example_text 0.85 \<noteq>
        generate_brakes_response_with_context
          (extract_technical_info lower_latin1 example_text) 0.85"
    using t by blast
  show ?thesis using h p k r example_run by blast
qed

subsection \<open>The low-confidence responder\<close>

text \<open>
  Claim C3. For a non-empty set of matches whose scores are all at most 0.7, the response
  is that of the low-confidence responder, which reads the query only: two such sets give
  the same response for the same query. The response is one of two fixed checklists, and
  neither has a bullet character in it, so no bulleted list of the match metadata.
\<close>

theorem low_confidence_query_only:
  assumes "matches1 \<noteq> []" and "\<forall>m\<in>set matches1. score m \<le> 0.7"
      and "matches2 \<noteq> []" and "\<forall>m\<in>set matches2. score m \<le> 0.7"
  shows "generate_response lower query (Some matches1) =
           generate_low_confidence_response lower query \<and>
         generate_response lower query (Some matches1) =
           generate_response lower query (Some matches2) \<and>
         generate_response lower query (Some matches1) \<in>
           {low_confidence_motor, low_confidence_general} \<and>
         0x2022 \<notin> set low_confidence_motor \<and> 0x2022 \<notin> set low_confidence_general"
proof -
  have g: "generate_response lower query (Some matches) =
      generate_low_confidence_response lower query"
    if "matches \<noteq> []" and "\<forall>m\<in>set matches. score m \<le> 0.7" for matches
  proof -
    have "filter (\<lambda>match. score match > 0.7) matches = []"
      using that(2) by (auto simp add: filter_empty_conv)
    then show ?thesis using that(1)
      by (cases matches) (simp_all add: generate_response_def generate_response_try_def)
  qed
  have b: "0x2022 \<notin> set low_confidence_motor \<and> 0x2022 \<notin> set low_confidence_general"
    by (simp add: low_confidence_motor_def low_confidence_general_def U_def)
  show ?thesis
    using g[OF assms(1,2)] g[OF assms(3,4)] b
    by (simp add: generate_low_confidence_response_def Let_def)
qed

theorem low_confidence_query_only_witness:
  "[weak_match] \<noteq> [] \<and> score weak_match \<le> 0.7 \<and>
   [low_match, weak_match] \<noteq> [] \<and> score low_match \<le> 0.7 \<and>
   generate_response lower_latin1 example_query (Some [weak_match]) = low_confidence_motor \<and>
   generate_response lower_latin1 example_query (Some [low_match, weak_match]) =
     low_confidence_motor"
proof -
  have h1: "\<forall>m\<in>set [weak_match]. score m \<le> 0.7" by (simp add: weak_match_def)
  have h2: "\<forall>m\<in>set [low_match, weak_match]. score m \<le> 0.7"
    by (simp add: weak_match_def low_match_def)
  have l: "generate_low_confidence_response lower_latin1 example_query = low_confidence_motor"
    by (simp add: generate_low_confidence_response_def low_confidence_words_def
        example_query_def string_defs)
  have "generate_response lower_latin1 example_query (Some [weak_match]) =
          generate_low_confidence_response lower_latin1 example_query \<and>
        generate_response lower_latin1 example_query (Some [weak_match]) =
          generate_response lower_latin1 example_query (Some [low_match, weak_match])"
    using h1 h2
      low_confidence_query_only[of "[weak_match]" "[low_match, weak_match]" lower_latin1
        example_query]
    by blast
  moreover have "score weak_match \<le> 0.7 \<and> score low_match \<le> 0.7"
    by (simp add: weak_match_def low_match_def)
  moreover have "[weak_match] \<noteq> [] \<and> [low_match, weak_match] \<noteq> []"
    by simp
  ultimately show ?thesis using l by metis
qed

subsection \<open>Matches without a text field\<close>

lemma concat_context_part_empty:
  "\<forall>m\<in>set ms. context_part m = [] \<Longrightarrow> concat (map context_part ms) = []"
  by (induction ms) simp_all

lemma context_part_empty_iff:
  "context_part m = [] \<longleftrightarrow>
     (case metadata m of None \<Rightarrow> True | Some md \<Rightarrow> md (U ''text'') = None)"
  by (simp add: context_part_def split: option.splits)

text \<open>
  Claim C10. When some match has a score above 0.7 and no match above 0.7 has a \<open>text\<close>
  field in its metadata (the metadata is absent, or has no such key), no exception is
  raised: the response is the template of the query's category filled from four empty
  sequences, with the score of a match above 0.7, and it is not the technical-error text.
\<close>

theorem missing_text_skipped:
  assumes "\<exists>m\<in>set matches. 0.7 < score m"
      and "\<forall>m\<in>set matches. 0.7 < score m \<longrightarrow>
             (case metadata m of None \<Rightarrow> True | Some md \<Rightarrow> md (U ''text'') = None)"
  shows "\<exists>first. first \<in> set matches \<and> 0.7 < score first \<and>
           generate_response_try lower query (Some matches) =
             Inr (generate_response lower query (Some matches)) \<and>
           generate_response lower query (Some matches) =
             category_template (select_category lower query)
               \<lparr>procedures = [], specifications = [], warnings = [], tools = []\<rparr>
               query (score first) \<and>
           generate_response lower query (Some matches) \<noteq> error_response"
proof -
  from assms(1) have "filter (\<lambda>match. score match > 0.7) matches \<noteq> []"
    by (auto simp add: filter_empty_conv)
  then obtain first others where
    f: "filter (\<lambda>match. score match > 0.7) matches = first # others"
    by (cases "filter (\<lambda>match. score match > 0.7) matches") auto
  then have fin: "first \<in> set matches \<and> 0.7 < score first"
    using filter_hd_in[of "\<lambda>match. score match > 0.7" matches first others] by simp
  have "\<forall>m\<in>set (first # others). context_part m = []"
  proof
    fix m assume "m \<in> set (first # others)"
    then have "m \<in> set (filter (\<lambda>match. score match > 0.7) matches)" using f by simp
    then have "m \<in> set matches \<and> 0.7 < score m" by simp
    then show "context_part m = []" using assms(2) context_part_empty_iff by blast
  qed
  then have "\<forall>m\<in>set (take 3 (first # others)). context_part m = []"
    using in_set_takeD by fast
  then have c0: "concat (map context_part (take 3 (first # others))) = []"
    using concat_context_part_empty by blast
  have t: "generate_response_try lower query (Some matches) =
      Inr (generate_mechanical_response lower query [] (score first))"
    by (simp only: passing_match_response[OF f] c0 join.simps sum.case)
  then have r: "generate_response lower query (Some matches) =
      category_template (select_category lower query)
        \<lparr>procedures = [], specifications = [], warnings = [], tools = []\<rparr>
        query (score first)"
    by (simp add: generate_response_def select_category_dispatch extract_empty)
  have "generate_response lower query (Some matches) \<noteq> error_response"
    using r category_template_not_fixed
    by (metis insertCI)
  then show ?thesis using fin t r by (auto simp add: generate_response_def)
qed

theorem missing_text_skipped_witness:
  "0.7 < score bare_match \<and> metadata bare_match = None \<and>
   0.7 < score untexted_match \<and> (\<exists>md. metadata untexted_match = Some md \<and> md (U ''text'') = None) \<and>
   \<not> 0.7 < score weak_match \<and>
   generate_response lower_latin1 example_query (Some [weak_match, bare_match, untexted_match]) =
     generate_motor_response_with_context
       \<lparr>procedures = [], specifications = [], warnings = [], tools = []\<rparr> 0.91"
proof -
  have s: "0.7 < score bare_match \<and> metadata bare_match = None \<and>
      0.7 < score untexted_match \<and>
      (\<exists>md. metadata untexted_match = Some md \<and> md (U ''text'') = None) \<and>
      \<not> 0.7 < score weak_match"
    by (simp add: bare_match_def untexted_match_def weak_match_def U_def)
  then have h1: "\<exists>m\<in>set [weak_match, bare_match, untexted_match]. 0.7 < score m" by simp
  have h2: "\<forall>m\<in>set [weak_match, bare_match, untexted_match]. 0.7 < score m \<longrightarrow>
             (case metadata m of None \<Rightarrow> True | Some md \<Rightarrow> md (U ''text'') = None)"
    using s by auto
  have c: "select_category lower_latin1 example_query = Cat_Engine"
    by (simp add: select_category_def category_priority_def motor_words_def example_query_def
        string_defs)
  obtain first where
    "first \<in> set [weak_match, bare_match, untexted_match]" and "0.7 < score first" and
    "generate_response lower_latin1 example_query (Some [weak_match, bare_match, untexted_match]) =
       category_template (select_category lower_latin1 example_query)
         \<lparr>procedures = [], specifications = [], warnings = [], tools = []\<rparr>
         example_query (score first)"
    using missing_text_skipped[OF h1 h2, of lower_latin1 example_query] by blast
  then have "generate_response lower_latin1 example_query
        (Some [weak_match, bare_match, untexted_match]) =
      generate_motor_response_with_context
        \<lparr>procedures = [], specifications = [], warnings = [], tools = []\<rparr> 0.91"
    by (simp add: c motor_template)
  then show ?thesis using s by blast
qed

subsection \<open>Chat without search results\<close>

lemma chat_without_matches:
  assumes "message \<noteq> []" and "\<not> any_in greeting_words (lower message)"
      and "query_pinecone env message 5 = None \<or> query_pinecone env message 5 = Some []"
  shows "chat lower env message = Chat_ok chat_no_data_response False"
  using assms by (auto simp add: chat_def Let_def)

lemma search_unavailable:
  "index env = None \<Longrightarrow> query_pinecone env query top_k = None"
  "model env = None \<Longrightarrow> query_pinecone env query top_k = None"
  "model env = Some encode \<Longrightarrow> encode query = Inl e \<Longrightarrow> query_pinecone env query top_k = None"
  "index env = Some index_query \<Longrightarrow> model env = Some encode \<Longrightarrow>
     encode query = Inr v \<Longrightarrow> index_query v top_k = Inl e \<Longrightarrow>
     query_pinecone env query top_k = None"
  by (simp_all add: query_pinecone_def get_embedding_def split: option.splits)

lemma search_empty:
  "index env = Some index_query \<Longrightarrow> model env = Some encode \<Longrightarrow>
     encode query = Inr v \<Longrightarrow> v \<noteq> [] \<Longrightarrow> index_query v top_k = Inr [] \<Longrightarrow>
     query_pinecone env query top_k = Some []"
  by (simp add: query_pinecone_def get_embedding_def)

lemma chat_no_data_phrases:
  "str_in (U ''s'' @ [0xED] @ U ''ntomas'') chat_no_data_response"
  "str_in (U ''Cu'' @ [0xE1] @ U ''ndo comenz'' @ [0xF3] @ U '' el problema'') chat_no_data_response"
  "str_in (U ''C'' @ [0xF3] @ U ''digos de error'') chat_no_data_response"
  by (simp_all add: chat_no_data_response_def U_def)

lemma chat_template_differs: "chat_no_data_response \<noteq> no_match_response"
  by (simp add: chat_no_data_response_def no_match_response_def U_def)

text \<open>
  Claim C6, as amended. For a non-empty message without a greeting word, when the search
  gives \<open>None\<close> or no match, \<open>chat\<close> answers normally with its own fixed text, and that
  text asks for the symptoms, for when the problem began and for the error codes. The
  search gives \<open>None\<close> when the index or the embedding model is not initialised, when the
  embedding fails, and when the remote query raises; it gives no match when the remote
  query returns none. The text is not the no-match text of \<open>generate_response\<close>.
\<close>

theorem chat_insufficient_information:
  assumes "message \<noteq> []" and "\<not> any_in greeting_words (lower message)"
  shows "(query_pinecone env message 5 = None \<or> query_pinecone env message 5 = Some [] \<longrightarrow>
            chat lower env message = Chat_ok chat_no_data_response False) \<and>
         (index env = None \<longrightarrow> query_pinecone env message 5 = None) \<and>
         (model env = None \<longrightarrow> query_pinecone env message 5 = None) \<and>
         (model env = Some encode \<and> encode message = Inl e \<longrightarrow>
            query_pinecone env message 5 = None) \<and>
         (index env = Some index_query \<and> model env = Some encode \<and>
          encode message = Inr v \<and> index_query v 5 = Inl e \<longrightarrow>
            query_pinecone env message 5 = None) \<and>
         (index env = Some index_query \<and> model env = Some encode \<and>
          encode message = Inr v \<and> v \<noteq> [] \<and> index_query v 5 = Inr [] \<longrightarrow>
            query_pinecone env message 5 = Some []) \<and>
         str_in (U ''s'' @ [0xED] @ U ''ntomas'') chat_no_data_response \<and>
         str_in (U ''Cu'' @ [0xE1] @ U ''ndo comenz'' @ [0xF3] @ U '' el problema'')
           chat_no_data_response \<and>
         str_in (U ''C'' @ [0xF3] @ U ''digos de error'') chat_no_data_response \<and>
         chat_no_data_response \<noteq> no_match_response"
proof -
  have a: "query_pinecone env message 5 = None \<or> query_pinecone env message 5 = Some [] \<Longrightarrow>
      chat lower env message = Chat_ok chat_no_data_response False"
    using chat_without_matches assms by blast
  have b: "index env = None \<Longrightarrow> query_pinecone env message 5 = None"
    by (rule search_unavailable(1))
  have c: "model env = None \<Longrightarrow> query_pinecone env message 5 = None"
    by (rule search_unavailable(2))
  have d: "model env = Some encode \<and> encode message = Inl e \<Longrightarrow>
      query_pinecone env message 5 = None"
    using search_unavailable(3) by blast
  have f: "index env = Some index_query \<and> model env = Some encode \<and>
      encode message = Inr v \<and> index_query v 5 = Inl e \<Longrightarrow>
      query_pinecone env message 5 = None"
    using search_unavailable(4) by blast
  have g: "index env = Some index_query \<and> model env = Some encode \<and>
      encode message = Inr v \<and> v \<noteq> [] \<and> index_query v 5 = Inr [] \<Longrightarrow>
      query_pinecone env message 5 = Some []"
    using search_empty by blast
  show ?thesis
    using a b c d f g chat_no_data_phrases chat_template_differs by blast
qed

theorem chat_insufficient_information_witness:
  "example_message \<noteq> [] \<and> \<not> any_in greeting_words (lower_latin1 example_message) \<and>
   index offline_env = None \<and> model offline_env = None \<and>
   query_pinecone offline_env example_message 5 = None \<and>
   chat lower_latin1 offline_env example_message = Chat_ok chat_no_data_response False \<and>
   query_pinecone empty_index_env example_message 5 = Some [] \<and>
   chat lower_latin1 empty_index_env example_message = Chat_ok chat_no_data_response False \<and>
   raising_index [0.12, -0.5] 5 = Inl (OtherException (U ''connection timed out'')) \<and>
   chat lower_latin1 unreachable_index_env example_message =
     Chat_ok chat_no_data_response False \<and>
   raising_encoder example_message = Inl (OtherException (U ''out of memory'')) \<and>
   chat lower_latin1 broken_model_env example_message = Chat_ok chat_no_data_response False"
proof -
  have h1: "example_message \<noteq> []" by (simp add: example_message_def U_def)
  have h2: "\<not> any_in greeting_words (lower_latin1 example_message)"
    by (simp add: example_message_def greeting_words_def string_defs)
  have o: "index offline_env = None \<and> model offline_env = None"
    by (simp add: offline_env_def)
  have e: "index empty_index_env = Some empty_index \<and>
      model empty_index_env = Some fixed_encoder \<and>
      fixed_encoder example_message = Inr [0.12, -0.5] \<and>
      [0.12, -0.5::real] \<noteq> [] \<and>
      empty_index [0.12, -0.5] 5 = Inr []"
    by (simp add: empty_index_env_def fixed_encoder_def empty_index_def)
  note t1 = chat_insufficient_information[of example_message lower_latin1 offline_env,
      OF h1 h2]
  note t2 = chat_insufficient_information[of example_message lower_latin1 empty_index_env
      fixed_encoder _ empty_index "[0.12, -0.5]", OF h1 h2]
  have a: "query_pinecone offline_env example_message 5 = None" using t1 o by blast
  then have b: "chat lower_latin1 offline_env example_message =
      Chat_ok chat_no_data_response False"
    using t1 by blast
  have c: "query_pinecone empty_index_env example_message 5 = Some []" using t2 e by blast
  then have d: "chat lower_latin1 empty_index_env example_message =
      Chat_ok chat_no_data_response False"
    using t2 by blast
  have u: "index unreachable_index_env = Some raising_index \<and>
      model unreachable_index_env = Some fixed_encoder \<and>
      raising_index [0.12, -0.5] 5 = Inl (OtherException (U ''connection timed out''))"
    by (simp add: unreachable_index_env_def raising_index_def)
  note t3 = chat_insufficient_information[of example_message lower_latin1
      unreachable_index_env fixed_encoder "OtherException (U ''connection timed out'')"
      raising_index "[0.12, -0.5]", OF h1 h2]
  have "query_pinecone unreachable_index_env example_message 5 = None"
    using t3 u e by blast
  then have f: "chat lower_latin1 unreachable_index_env example_message =
      Chat_ok chat_no_data_response False"
    using t3 by blast
  have m: "model broken_model_env = Some raising_encoder \<and>
      raising_encoder example_message = Inl (OtherException (U ''out of memory''))"
    by (simp add: broken_model_env_def raising_encoder_def)
  note t4 = chat_insufficient_information[of example_message lower_latin1
      broken_model_env raising_encoder "OtherException (U ''out of memory'')", OF h1 h2]
  have "query_pinecone broken_model_env example_message 5 = None"
    using t4 m by blast
  then have g: "chat lower_latin1 broken_model_env example_message =
      Chat_ok chat_no_data_response False"
    using t4 by blast
  show ?thesis using h1 h2 o a b c d f g u m by blast
qed

text \<open>
  Claim C6 as stated fails. The empty message has no greeting word and the search is
  unavailable, yet \<open>chat\<close> answers with the validation error and status 400. And for a
  message that is not empty, the text returned is not the no-match text of
  \<open>generate_response\<close>.
\<close>

theorem chat_insufficient_information_counterexample:
  "\<not> any_in greeting_words (lower_latin1 []) \<and>
   query_pinecone offline_env [] 5 = None \<and>
   chat lower_latin1 offline_env [] = Chat_error (U ''No message provided'') 400 \<and>
   chat lower_latin1 offline_env example_message = Chat_ok chat_no_data_response False \<and>
   chat lower_latin1 offline_env example_message \<noteq> Chat_ok no_match_response False"
proof -
  have 1: "\<not> any_in greeting_words (lower_latin1 [])"
    by (simp add: greeting_words_def string_defs)
  have 2: "query_pinecone offline_env [] 5 = None"
    by (simp add: query_pinecone_def offline_env_def)
  have 3: "chat lower_latin1 offline_env [] = Chat_error (U ''No message provided'') 400"
    by (simp add: chat_def)
  have h2: "\<not> any_in greeting_words (lower_latin1 example_message)"
    by (simp add: example_message_def greeting_words_def string_defs)
  have 4: "chat lower_latin1 offline_env example_message = Chat_ok chat_no_data_response False"
    using h2
    by (simp add: chat_def query_pinecone_def offline_env_def Let_def example_message_def U_def)
  show ?thesis using 1 2 3 4 chat_template_differs by simp
qed

subsection \<open>The speech fallback chain\<close>

lemma requests_distinct:
  "generative_request text \<noteq> neural_request text"
  "generative_request text \<noteq> standard_request text"
  "neural_request text \<noteq> standard_request text"
  by (simp_all add: request_defs)

lemma calls_prefix:
  "\<exists>n\<le>3. snd (speak_text env text) =
     take n [generative_request text, neural_request text, standard_request text]"
proof -
  have "snd (speak_text env text) \<in>
      {[], [generative_request text], [generative_request text, neural_request text],
       [generative_request text, neural_request text, standard_request text]}"
    by (simp add: speak_text_def split: sum.splits)
  then consider
      (none) "snd (speak_text env text) = []"
    | (one) "snd (speak_text env text) = [generative_request text]"
    | (two) "snd (speak_text env text) = [generative_request text, neural_request text]"
    | (three) "snd (speak_text env text) =
        [generative_request text, neural_request text, standard_request text]"
    by auto
  then show ?thesis
  proof cases
    case none
    then show ?thesis by (intro exI[of _ 0]) simp
  next
    case one
    then show ?thesis by (intro exI[of _ 1]) simp
  next
    case two
    then show ?thesis by (intro exI[of _ 2]) simp
  next
    case three
    then show ?thesis by (intro exI[of _ 3]) simp
  qed
qed

lemma calls_distinct: "distinct (snd (speak_text env text))"
proof -
  obtain n where "snd (speak_text env text) =
     take n [generative_request text, neural_request text, standard_request text]"
    using calls_prefix by blast
  moreover have "distinct [generative_request text, neural_request text, standard_request text]"
    using requests_distinct by simp
  ultimately show ?thesis using distinct_take by metis
qed

lemma neural_after_service_error:
  assumes "boto3_client env = Inr polly"
      and "neural_request text \<in> set (snd (speak_text env text))"
  shows "\<exists>e. synthesize polly (generative_request text) = Inl e \<and> is_service_error e"
  using assms requests_distinct[of "text"]
  by (auto simp add: speak_text_def split: sum.splits if_splits)

lemma standard_after_service_error:
  assumes "boto3_client env = Inr polly"
      and "standard_request text \<in> set (snd (speak_text env text))"
  shows "\<exists>e. synthesize polly (neural_request text) = Inl e \<and> is_service_error e"
  using assms requests_distinct[of "text"]
  by (auto simp add: speak_text_def split: sum.splits if_splits)

lemma audio_from_last_call:
  assumes "boto3_client env = Inr polly"
      and "fst (speak_text env text) = Audio audio_data tag"
  shows "snd (speak_text env text) \<noteq> [] \<and>
         synthesize polly (last (snd (speak_text env text))) = Inr audio_data \<and>
         (\<forall>req\<in>set (butlast (snd (speak_text env text))).
            \<exists>e. synthesize polly req = Inl e \<and> is_service_error e) \<and>
         (tag, last (snd (speak_text env text))) \<in>
           {(U ''generative'', generative_request text), (U ''neural'', neural_request text),
            (U ''standard'', standard_request text)}"
  using assms
  by (auto simp add: speak_text_def split: sum.splits if_splits)

lemma third_tier_run:
  assumes "text \<noteq> []" and "truthy (AWS_ACCESS_KEY env)" and "truthy (AWS_SECRET_KEY env)"
      and "boto3_client env = Inr polly"
      and "synthesize polly (generative_request text) = Inl e1" and "is_service_error e1"
      and "synthesize polly (neural_request text) = Inl e2" and "is_service_error e2"
  shows "speak_text env text =
     (case synthesize polly (standard_request text) of
        Inr audio_data \<Rightarrow>
          (Audio audio_data (U ''standard''),
           [generative_request text, neural_request text, standard_request text])
      | Inl e3 \<Rightarrow>
          (Browser_TTS text (Some (str_exn e2)),
           [generative_request text, neural_request text, standard_request text]))"
  using assms by (simp add: speak_text_def split: sum.splits)

lemma first_tier_escape:
  assumes "text \<noteq> []" and "truthy (AWS_ACCESS_KEY env)" and "truthy (AWS_SECRET_KEY env)"
      and "boto3_client env = Inr polly"
      and "synthesize polly (generative_request text) = Inl e" and "\<not> is_service_error e"
  shows "speak_text env text =
           (Browser_TTS text (Some (str_exn e)), [generative_request text])"
  using assms by (simp add: speak_text_def)

lemma second_tier_escape:
  assumes "text \<noteq> []" and "truthy (AWS_ACCESS_KEY env)" and "truthy (AWS_SECRET_KEY env)"
      and "boto3_client env = Inr polly"
      and "synthesize polly (generative_request text) = Inl e1" and "is_service_error e1"
      and "synthesize polly (neural_request text) = Inl e" and "\<not> is_service_error e"
  shows "speak_text env text =
           (Browser_TTS text (Some (str_exn e)), [generative_request text, neural_request text])"
  using assms by (simp add: speak_text_def)

lemma first_call:
  assumes "text \<noteq> []" and "truthy (AWS_ACCESS_KEY env)" and "truthy (AWS_SECRET_KEY env)"
      and "boto3_client env = Inr polly"
  shows "take 1 (snd (speak_text env text)) = [generative_request text]"
  using assms by (auto simp add: speak_text_def split: sum.splits)

lemma first_tier_success:
  assumes "text \<noteq> []" and "truthy (AWS_ACCESS_KEY env)" and "truthy (AWS_SECRET_KEY env)"
      and "boto3_client env = Inr polly"
      and "synthesize polly (generative_request text) = Inr audio_data"
  shows "speak_text env text = (Audio audio_data (U ''generative''), [generative_request text])"
  using assms by (simp add: speak_text_def)

lemma second_tier_success:
  assumes "text \<noteq> []" and "truthy (AWS_ACCESS_KEY env)" and "truthy (AWS_SECRET_KEY env)"
      and "boto3_client env = Inr polly"
      and "synthesize polly (generative_request text) = Inl e1" and "is_service_error e1"
      and "synthesize polly (neural_request text) = Inr audio_data"
  shows "speak_text env text =
           (Audio audio_data (U ''neural''), [generative_request text, neural_request text])"
  using assms by (simp add: speak_text_def)

lemma neural_called_iff:
  assumes "text \<noteq> []" and "truthy (AWS_ACCESS_KEY env)" and "truthy (AWS_SECRET_KEY env)"
      and "boto3_client env = Inr polly"
  shows "neural_request text \<in> set (snd (speak_text env text)) \<longleftrightarrow>
           (\<exists>x. synthesize polly (generative_request text) = Inl x \<and> is_service_error x)"
  using assms requests_distinct[of "text"]
  by (auto simp add: speak_text_def split: sum.splits)

lemma standard_called_iff:
  assumes "text \<noteq> []" and "truthy (AWS_ACCESS_KEY env)" and "truthy (AWS_SECRET_KEY env)"
      and "boto3_client env = Inr polly"
  shows "standard_request text \<in> set (snd (speak_text env text)) \<longleftrightarrow>
           (\<exists>x. synthesize polly (generative_request text) = Inl x \<and> is_service_error x) \<and>
           (\<exists>y. synthesize polly (neural_request text) = Inl y \<and> is_service_error y)"
  using assms requests_distinct[of "text"]
  by (auto simp add: speak_text_def split: sum.splits)

lemma audio_iff_some_tier:
  assumes "text \<noteq> []" and "truthy (AWS_ACCESS_KEY env)" and "truthy (AWS_SECRET_KEY env)"
      and "boto3_client env = Inr polly"
  shows "(\<exists>audio_data tag. fst (speak_text env text) = Audio audio_data tag) \<longleftrightarrow>
           (\<exists>a. synthesize polly (generative_request text) = Inr a) \<or>
           (\<exists>x a. synthesize polly (generative_request text) = Inl x \<and> is_service_error x \<and>
              synthesize polly (neural_request text) = Inr a) \<or>
           (\<exists>x y a. synthesize polly (generative_request text) = Inl x \<and> is_service_error x \<and>
              synthesize polly (neural_request text) = Inl y \<and> is_service_error y \<and>
              synthesize polly (standard_request text) = Inr a)"
  using assms
  by (auto simp add: speak_text_def split: sum.splits)

lemma first_tier_polly_outcomes:
  "synthesize first_tier_polly (generative_request spoken_text) = Inr [0x49, 0x44, 0x33]"
  by (simp add: synthesize_def first_tier_polly_def)

lemma second_tier_polly_outcomes:
  "synthesize second_tier_polly (generative_request spoken_text) =
     Inl (ClientError (U ''generative engine not supported''))"
  "synthesize second_tier_polly (neural_request spoken_text) = Inr [0x49, 0x44, 0x33]"
  by (simp_all add: synthesize_def second_tier_polly_def request_defs U_def)

lemma combine_chain:
  "A \<Longrightarrow> B \<Longrightarrow> (P \<longrightarrow> C1 \<and> C2 \<and> C3 \<and> C4) \<Longrightarrow> (P \<longrightarrow> C5) \<Longrightarrow>
     A \<and> B \<and> (P \<longrightarrow> C1 \<and> C2 \<and> C3 \<and> C4 \<and> C5)"
  by blast

lemma third_tier_polly_outcomes:
  "synthesize third_tier_polly (generative_request spoken_text) =
     Inl (ClientError (U ''generative engine not supported''))"
  "synthesize third_tier_polly (neural_request spoken_text) =
     Inl (BotoCoreError (U ''stream closed''))"
  "synthesize third_tier_polly (standard_request spoken_text) = Inr [0x49, 0x44, 0x33]"
  by (simp_all add: synthesize_def third_tier_polly_def request_defs U_def)

lemma failing_polly_outcomes:
  "synthesize failing_polly (generative_request spoken_text) = Inl (ClientError (U ''first error''))"
  "synthesize failing_polly (neural_request spoken_text) = Inl (ClientError (U ''second error''))"
  "synthesize failing_polly (standard_request spoken_text) = Inl (BotoCoreError (U ''third error''))"
  by (simp_all add: synthesize_def failing_polly_def request_defs U_def)

lemma crashing_polly_outcomes:
  "synthesize crashing_polly (generative_request spoken_text) =
     Inl (OtherException (U ''unexpected''))"
  by (simp_all add: synthesize_def crashing_polly_def request_defs U_def)

lemma second_tier_crash_polly_outcomes:
  "synthesize second_tier_crash_polly (generative_request spoken_text) =
     Inl (BotoCoreError (U ''first error''))"
  "synthesize second_tier_crash_polly (neural_request spoken_text) =
     Inl (OtherException (U ''unexpected''))"
  by (simp_all add: synthesize_def second_tier_crash_polly_def request_defs U_def)

lemma third_tier_crash_polly_outcomes:
  "synthesize third_tier_crash_polly (generative_request spoken_text) =
     Inl (ClientError (U ''first error''))"
  "synthesize third_tier_crash_polly (neural_request spoken_text) =
     Inl (ClientError (U ''second error''))"
  "synthesize third_tier_crash_polly (standard_request spoken_text) =
     Inl (OtherException (U ''unexpected''))"
  by (simp_all add: synthesize_def third_tier_crash_polly_def request_defs U_def)

lemma speech_env_with_ready:
  "truthy (AWS_ACCESS_KEY (speech_env_with polly))"
  "truthy (AWS_SECRET_KEY (speech_env_with polly))"
  "boto3_client (speech_env_with polly) = Inr polly"
  by (simp_all add: speech_env_with_def truthy_def U_def)

lemma spoken_text_nonempty: "spoken_text \<noteq> []"
  by (simp add: spoken_text_def U_def)

text \<open>
  Claim C7. The calls that \<open>speak_text\<close> makes to the speech service are a prefix of
  generative, neural, standard, in that order, so each tier is tried at most once. The
  neural call is made only after a service error of the generative call, and the standard
  call only after a service error of the neural call. An audio answer carries the bytes
  of the last call made, every earlier call has failed with a service error, and its tag
  names the tier of that last call. With text and credentials present and the client
  created, the generative call is always made first, and the answer is the audio of the
  first tier that succeeds, tagged with that tier: generative after one call, neural
  after a service error of the first tier and two calls, standard after service errors of
  the first two tiers and three calls. A later tier is called exactly when every tier
  before it failed with a service error, and the answer is audio exactly when some tier
  succeeds after service errors of all tiers before it.
\<close>

theorem fallback_chain_order:
  "(\<exists>n\<le>3. snd (speak_text env text) =
      take n [generative_request text, neural_request text, standard_request text]) \<and>
   distinct (snd (speak_text env text)) \<and>
   (boto3_client env = Inr polly \<longrightarrow>
      (neural_request text \<in> set (snd (speak_text env text)) \<longrightarrow>
         (\<exists>e. synthesize polly (generative_request text) = Inl e \<and> is_service_error e)) \<and>
      (standard_request text \<in> set (snd (speak_text env text)) \<longrightarrow>
         (\<exists>e. synthesize polly (neural_request text) = Inl e \<and> is_service_error e)) \<and>
      (fst (speak_text env text) = Audio audio_data tag \<longrightarrow>
         snd (speak_text env text) \<noteq> [] \<and>
         synthesize polly (last (snd (speak_text env text))) = Inr audio_data \<and>
         (\<forall>req\<in>set (butlast (snd (speak_text env text))).
            \<exists>e. synthesize polly req = Inl e \<and> is_service_error e) \<and>
         (tag, last (snd (speak_text env text))) \<in>
           {(U ''generative'', generative_request text), (U ''neural'', neural_request text),
            (U ''standard'', standard_request text)}) \<and>
      (text \<noteq> [] \<and> truthy (AWS_ACCESS_KEY env) \<and> truthy (AWS_SECRET_KEY env) \<and>
       synthesize polly (generative_request text) = Inl e1 \<and> is_service_error e1 \<and>
       synthesize polly (neural_request text) = Inl e2 \<and> is_service_error e2 \<and>
       synthesize polly (standard_request text) = Inr audio3 \<longrightarrow>
         speak_text env text =
           (Audio audio3 (U ''standard''),
            [generative_request text, neural_request text, standard_request text]) \<and>
         length (snd (speak_text env text)) = 3) \<and>
      (text \<noteq> [] \<and> truthy (AWS_ACCESS_KEY env) \<and> truthy (AWS_SECRET_KEY env) \<longrightarrow>
         take 1 (snd (speak_text env text)) = [generative_request text] \<and>
         (synthesize polly (generative_request text) = Inr audio1 \<longrightarrow>
            speak_text env text =
              (Audio audio1 (U ''generative''), [generative_request text])) \<and>
         (synthesize polly (generative_request text) = Inl e1 \<and> is_service_error e1 \<and>
          synthesize polly (neural_request text) = Inr audio2 \<longrightarrow>
            speak_text env text =
              (Audio audio2 (U ''neural''), [generative_request text, neural_request text])) \<and>
         (neural_request text \<in> set (snd (speak_text env text)) \<longleftrightarrow>
            (\<exists>x. synthesize polly (generative_request text) = Inl x \<and> is_service_error x)) \<and>
         (standard_request text \<in> set (snd (speak_text env text)) \<longleftrightarrow>
            (\<exists>x. synthesize polly (generative_request text) = Inl x \<and> is_service_error x) \<and>
            (\<exists>y. synthesize polly (neural_request text) = Inl y \<and> is_service_error y)) \<and>
         ((\<exists>a t. fst (speak_text env text) = Audio a t) \<longleftrightarrow>
            (\<exists>a. synthesize polly (generative_request text) = Inr a) \<or>
            (\<exists>x a. synthesize polly (generative_request text) = Inl x \<and> is_service_error x \<and>
               synthesize polly (neural_request text) = Inr a) \<or>
            (\<exists>x y a. synthesize polly (generative_request text) = Inl x \<and>
               is_service_error x \<and>
               synthesize polly (neural_request text) = Inl y \<and> is_service_error y \<and>
               synthesize polly (standard_request text) = Inr a))))"
proof -
  have a: "\<exists>n\<le>3. snd (speak_text env text) =
      take n [generative_request text, neural_request text, standard_request text]"
    using calls_prefix by blast
  have b: "distinct (snd (speak_text env text))"
    using calls_distinct by blast
  have c: "boto3_client env = Inr polly \<Longrightarrow>
      neural_request text \<in> set (snd (speak_text env text)) \<Longrightarrow>
      \<exists>e. synthesize polly (generative_request text) = Inl e \<and> is_service_error e"
    using neural_after_service_error by blast
  have d: "boto3_client env = Inr polly \<Longrightarrow>
      standard_request text \<in> set (snd (speak_text env text)) \<Longrightarrow>
      \<exists>e. synthesize polly (neural_request text) = Inl e \<and> is_service_error e"
    using standard_after_service_error by blast
  have e: "boto3_client env = Inr polly \<Longrightarrow>
      fst (speak_text env text) = Audio audio_data tag \<Longrightarrow>
      snd (speak_text env text) \<noteq> [] \<and>
      synthesize polly (last (snd (speak_text env text))) = Inr audio_data \<and>
      (\<forall>req\<in>set (butlast (snd (speak_text env text))).
         \<exists>e. synthesize polly req = Inl e \<and> is_service_error e) \<and>
      (tag, last (snd (speak_text env text))) \<in>
        {(U ''generative'', generative_request text), (U ''neural'', neural_request text),
         (U ''standard'', standard_request text)}"
    using audio_from_last_call by blast
  have f: "boto3_client env = Inr polly \<Longrightarrow>
      text \<noteq> [] \<and> truthy (AWS_ACCESS_KEY env) \<and> truthy (AWS_SECRET_KEY env) \<and>
      synthesize polly (generative_request text) = Inl e1 \<and> is_service_error e1 \<and>
      synthesize polly (neural_request text) = Inl e2 \<and> is_service_error e2 \<and>
      synthesize polly (standard_request text) = Inr audio3 \<Longrightarrow>
      speak_text env text =
        (Audio audio3 (U ''standard''),
         [generative_request text, neural_request text, standard_request text]) \<and>
      length (snd (speak_text env text)) = 3"
    using third_tier_run[of "text" env polly e1 e2] by simp
  have first: "boto3_client env = Inr polly \<longrightarrow>
      (neural_request text \<in> set (snd (speak_text env text)) \<longrightarrow>
         (\<exists>e. synthesize polly (generative_request text) = Inl e \<and> is_service_error e)) \<and>
      (standard_request text \<in> set (snd (speak_text env text)) \<longrightarrow>
         (\<exists>e. synthesize polly (neural_request text) = Inl e \<and> is_service_error e)) \<and>
      (fst (speak_text env text) = Audio audio_data tag \<longrightarrow>
         snd (speak_text env text) \<noteq> [] \<and>
         synthesize polly (last (snd (speak_text env text))) = Inr audio_data \<and>
         (\<forall>req\<in>set (butlast (snd (speak_text env text))).
            \<exists>e. synthesize polly req = Inl e \<and> is_service_error e) \<and>
         (tag, last (snd (speak_text env text))) \<in>
           {(U ''generative'', generative_request text), (U ''neural'', neural_request text),
            (U ''standard'', standard_request text)}) \<and>
      (text \<noteq> [] \<and> truthy (AWS_ACCESS_KEY env) \<and> truthy (AWS_SECRET_KEY env) \<and>
       synthesize polly (generative_request text) = Inl e1 \<and> is_service_error e1 \<and>
       synthesize polly (neural_request text) = Inl e2 \<and> is_service_error e2 \<and>
       synthesize polly (standard_request text) = Inr audio3 \<longrightarrow>
         speak_text env text =
           (Audio audio3 (U ''standard''),
            [generative_request text, neural_request text, standard_request text]) \<and>
         length (snd (speak_text env text)) = 3)"
    using c d e f by blast
  have second: "boto3_client env = Inr polly \<longrightarrow>
      (text \<noteq> [] \<and> truthy (AWS_ACCESS_KEY env) \<and> truthy (AWS_SECRET_KEY env) \<longrightarrow>
         take 1 (snd (speak_text env text)) = [generative_request text] \<and>
         (synthesize polly (generative_request text) = Inr audio1 \<longrightarrow>
            speak_text env text =
              (Audio audio1 (U ''generative''), [generative_request text])) \<and>
         (synthesize polly (generative_request text) = Inl e1 \<and> is_service_error e1 \<and>
          synthesize polly (neural_request text) = Inr audio2 \<longrightarrow>
            speak_text env text =
              (Audio audio2 (U ''neural''), [generative_request text, neural_request text])) \<and>
         (neural_request text \<in> set (snd (speak_text env text)) \<longleftrightarrow>
            (\<exists>x. synthesize polly (generative_request text) = Inl x \<and> is_service_error x)) \<and>
         (standard_request text \<in> set (snd (speak_text env text)) \<longleftrightarrow>
            (\<exists>x. synthesize polly (generative_request text) = Inl x \<and> is_service_error x) \<and>
            (\<exists>y. synthesize polly (neural_request text) = Inl y \<and> is_service_error y)) \<and>
         ((\<exists>a t. fst (speak_text env text) = Audio a t) \<longleftrightarrow>
            (\<exists>a. synthesize polly (generative_request text) = Inr a) \<or>
            (\<exists>x a. synthesize polly (generative_request text) = Inl x \<and> is_service_error x \<and>
               synthesize polly (neural_request text) = Inr a) \<or>
            (\<exists>x y a. synthesize polly (generative_request text) = Inl x \<and>
               is_service_error x \<and>
               synthesize polly (neural_request text) = Inl y \<and> is_service_error y \<and>
               synthesize polly (standard_request text) = Inr a)))"
  proof (intro impI, elim conjE)
    assume p: "boto3_client env = Inr polly" and n: "text \<noteq> []"
      and ka: "truthy (AWS_ACCESS_KEY env)" and ks: "truthy (AWS_SECRET_KEY env)"
    show "take 1 (snd (speak_text env text)) = [generative_request text] \<and>
         (synthesize polly (generative_request text) = Inr audio1 \<longrightarrow>
            speak_text env text =
              (Audio audio1 (U ''generative''), [generative_request text])) \<and>
         (synthesize polly (generative_request text) = Inl e1 \<and> is_service_error e1 \<and>
          synthesize polly (neural_request text) = Inr audio2 \<longrightarrow>
            speak_text env text =
              (Audio audio2 (U ''neural''), [generative_request text, neural_request text])) \<and>
         (neural_request text \<in> set (snd (speak_text env text)) \<longleftrightarrow>
            (\<exists>x. synthesize polly (generative_request text) = Inl x \<and> is_service_error x)) \<and>
         (standard_request text \<in> set (snd (speak_text env text)) \<longleftrightarrow>
            (\<exists>x. synthesize polly (generative_request text) = Inl x \<and> is_service_error x) \<and>
            (\<exists>y. synthesize polly (neural_request text) = Inl y \<and> is_service_error y)) \<and>
         ((\<exists>a t. fst (speak_text env text) = Audio a t) \<longleftrightarrow>
            (\<exists>a. synthesize polly (generative_request text) = Inr a) \<or>
            (\<exists>x a. synthesize polly (generative_request text) = Inl x \<and> is_service_error x \<and>
               synthesize polly (neural_request text) = Inr a) \<or>
            (\<exists>x y a. synthesize polly (generative_request text) = Inl x \<and>
               is_service_error x \<and>
               synthesize polly (neural_request text) = Inl y \<and> is_service_error y \<and>
               synthesize polly (standard_request text) = Inr a))"
    proof (intro conjI)
      show "take 1 (snd (speak_text env text)) = [generative_request text]"
        by (rule first_call[OF n ka ks p])
      show "synthesize polly (generative_request text) = Inr audio1 \<longrightarrow>
          speak_text env text = (Audio audio1 (U ''generative''), [generative_request text])"
        using first_tier_success[OF n ka ks p] by blast
      show "synthesize polly (generative_request text) = Inl e1 \<and> is_service_error e1 \<and>
          synthesize polly (neural_request text) = Inr audio2 \<longrightarrow>
          speak_text env text =
            (Audio audio2 (U ''neural''), [generative_request text, neural_request text])"
        using second_tier_success[OF n ka ks p] by blast
      show "neural_request text \<in> set (snd (speak_text env text)) \<longleftrightarrow>
          (\<exists>x. synthesize polly (generative_request text) = Inl x \<and> is_service_error x)"
        by (rule neural_called_iff[OF n ka ks p])
      show "standard_request text \<in> set (snd (speak_text env text)) \<longleftrightarrow>
          (\<exists>x. synthesize polly (generative_request text) = Inl x \<and> is_service_error x) \<and>
          (\<exists>y. synthesize polly (neural_request text) = Inl y \<and> is_service_error y)"
        by (rule standard_called_iff[OF n ka ks p])
      show "(\<exists>a t. fst (speak_text env text) = Audio a t) \<longleftrightarrow>
          (\<exists>a. synthesize polly (generative_request text) = Inr a) \<or>
          (\<exists>x a. synthesize polly (generative_request text) = Inl x \<and> is_service_error x \<and>
             synthesize polly (neural_request text) = Inr a) \<or>
          (\<exists>x y a. synthesize polly (generative_request text) = Inl x \<and>
             is_service_error x \<and>
             synthesize polly (neural_request text) = Inl y \<and> is_service_error y \<and>
             synthesize polly (standard_request text) = Inr a)"
        by (rule audio_iff_some_tier[OF n ka ks p])
    qed
  qed
  show ?thesis by (rule combine_chain[OF a b first second])
qed

theorem fallback_chain_order_witness:
  "spoken_text \<noteq> [] \<and>
   truthy (AWS_ACCESS_KEY (speech_env_with third_tier_polly)) \<and>
   truthy (AWS_SECRET_KEY (speech_env_with third_tier_polly)) \<and>
   boto3_client (speech_env_with third_tier_polly) = Inr third_tier_polly \<and>
   synthesize third_tier_polly (generative_request spoken_text) =
     Inl (ClientError (U ''generative engine not supported'')) \<and>
   synthesize third_tier_polly (neural_request spoken_text) =
     Inl (BotoCoreError (U ''stream closed'')) \<and>
   synthesize third_tier_polly (standard_request spoken_text) = Inr [0x49, 0x44, 0x33] \<and>
   speak_text (speech_env_with third_tier_polly) spoken_text =
     (Audio [0x49, 0x44, 0x33] (U ''standard''),
      [generative_request spoken_text, neural_request spoken_text,
       standard_request spoken_text]) \<and>
   length (snd (speak_text (speech_env_with third_tier_polly) spoken_text)) = 3 \<and>
   neural_request spoken_text \<in> set (snd (speak_text (speech_env_with third_tier_polly) spoken_text)) \<and>
   standard_request spoken_text \<in> set (snd (speak_text (speech_env_with third_tier_polly) spoken_text)) \<and>
   synthesize third_tier_polly
     (last (snd (speak_text (speech_env_with third_tier_polly) spoken_text))) =
     Inr [0x49, 0x44, 0x33] \<and>
   synthesize first_tier_polly (generative_request spoken_text) = Inr [0x49, 0x44, 0x33] \<and>
   speak_text (speech_env_with first_tier_polly) spoken_text =
     (Audio [0x49, 0x44, 0x33] (U ''generative''), [generative_request spoken_text]) \<and>
   synthesize second_tier_polly (generative_request spoken_text) =
     Inl (ClientError (U ''generative engine not supported'')) \<and>
   synthesize second_tier_polly (neural_request spoken_text) = Inr [0x49, 0x44, 0x33] \<and>
   speak_text (speech_env_with second_tier_polly) spoken_text =
     (Audio [0x49, 0x44, 0x33] (U ''neural''),
      [generative_request spoken_text, neural_request spoken_text]) \<and>
   neural_request spoken_text \<in>
     set (snd (speak_text (speech_env_with second_tier_polly) spoken_text))"
proof -
  have s: "is_service_error (ClientError (U ''generative engine not supported''))"
    "is_service_error (BotoCoreError (U ''stream closed''))"
    by simp_all
  have pre: "spoken_text \<noteq> [] \<and> truthy (AWS_ACCESS_KEY (speech_env_with polly)) \<and>
      truthy (AWS_SECRET_KEY (speech_env_with polly))" for polly
    using spoken_text_nonempty speech_env_with_ready(1,2) by blast
  note t3 = fallback_chain_order[of "speech_env_with third_tier_polly" spoken_text
      third_tier_polly "[0x49, 0x44, 0x33]" "U ''standard''"
      "ClientError (U ''generative engine not supported'')"
      "BotoCoreError (U ''stream closed'')" "[0x49, 0x44, 0x33]",
      THEN conjunct2, THEN conjunct2, THEN mp, OF speech_env_with_ready(3)]
  have h3: "spoken_text \<noteq> [] \<and> truthy (AWS_ACCESS_KEY (speech_env_with third_tier_polly)) \<and>
      truthy (AWS_SECRET_KEY (speech_env_with third_tier_polly)) \<and>
      synthesize third_tier_polly (generative_request spoken_text) =
        Inl (ClientError (U ''generative engine not supported'')) \<and>
      is_service_error (ClientError (U ''generative engine not supported'')) \<and>
      synthesize third_tier_polly (neural_request spoken_text) =
        Inl (BotoCoreError (U ''stream closed'')) \<and>
      is_service_error (BotoCoreError (U ''stream closed'')) \<and>
      synthesize third_tier_polly (standard_request spoken_text) = Inr [0x49, 0x44, 0x33]"
    using pre[of third_tier_polly] s third_tier_polly_outcomes by blast
  note r = t3[THEN conjunct2, THEN conjunct2, THEN conjunct2, THEN conjunct1, THEN mp, OF h3]
  have f: "fst (speak_text (speech_env_with third_tier_polly) spoken_text) =
      Audio [0x49, 0x44, 0x33] (U ''standard'')"
    using r by simp
  note l = t3[THEN conjunct2, THEN conjunct2, THEN conjunct1, THEN mp, OF f,
      THEN conjunct2, THEN conjunct1]
  have m: "neural_request spoken_text \<in>
        set (snd (speak_text (speech_env_with third_tier_polly) spoken_text)) \<and>
      standard_request spoken_text \<in>
        set (snd (speak_text (speech_env_with third_tier_polly) spoken_text))"
    using r by simp
  note t1 = fallback_chain_order[of "speech_env_with first_tier_polly" spoken_text
      first_tier_polly _ _ _ _ _ "[0x49, 0x44, 0x33]",
      THEN conjunct2, THEN conjunct2, THEN mp, OF speech_env_with_ready(3),
      THEN conjunct2, THEN conjunct2, THEN conjunct2, THEN conjunct2, THEN mp,
      OF pre[of first_tier_polly]]
  note r1 = t1[THEN conjunct2, THEN conjunct1, THEN mp, OF first_tier_polly_outcomes]
  note t2 = fallback_chain_order[of "speech_env_with second_tier_polly" spoken_text
      second_tier_polly _ _ "ClientError (U ''generative engine not supported'')" _ _ _
      "[0x49, 0x44, 0x33]",
      THEN conjunct2, THEN conjunct2, THEN mp, OF speech_env_with_ready(3),
      THEN conjunct2, THEN conjunct2, THEN conjunct2, THEN conjunct2, THEN mp,
      OF pre[of second_tier_polly]]
  have h2: "synthesize second_tier_polly (generative_request spoken_text) =
        Inl (ClientError (U ''generative engine not supported'')) \<and>
      is_service_error (ClientError (U ''generative engine not supported'')) \<and>
      synthesize second_tier_polly (neural_request spoken_text) = Inr [0x49, 0x44, 0x33]"
    using s second_tier_polly_outcomes by blast
  note r2 = t2[THEN conjunct2, THEN conjunct2, THEN conjunct1, THEN mp, OF h2]
  have x2: "neural_request spoken_text \<in>
      set (snd (speak_text (speech_env_with second_tier_polly) spoken_text))"
    using t2[THEN conjunct2, THEN conjunct2, THEN conjunct2, THEN conjunct1] h2 by blast
  show ?thesis
    using r l m r1 r2 x2 third_tier_polly_outcomes first_tier_polly_outcomes
      second_tier_polly_outcomes speech_env_with_ready[of third_tier_polly]
      spoken_text_nonempty
    by blast
qed

text \<open>
  Claim C8, as amended. For a non-empty text: when a credential is absent, \<open>speak_text\<close>
  answers with the client-side fallback carrying the text and no error, and makes no call
  to the speech service; when the first two tiers fail with service errors and the third
  fails with any exception, it answers with the client-side fallback carrying the text
  and the message of the second tier's error.
\<close>

theorem client_side_fallback:
  assumes "text \<noteq> []"
  shows "(\<not> truthy (AWS_ACCESS_KEY env) \<or> \<not> truthy (AWS_SECRET_KEY env) \<longrightarrow>
            speak_text env text = (Browser_TTS text None, [])) \<and>
         (truthy (AWS_ACCESS_KEY env) \<and> truthy (AWS_SECRET_KEY env) \<and>
          boto3_client env = Inr polly \<and>
          synthesize polly (generative_request text) = Inl e1 \<and> is_service_error e1 \<and>
          synthesize polly (neural_request text) = Inl e2 \<and> is_service_error e2 \<and>
          synthesize polly (standard_request text) = Inl e3 \<longrightarrow>
            speak_text env text =
              (Browser_TTS text (Some (str_exn e2)),
               [generative_request text, neural_request text, standard_request text]))"
proof -
  have a: "\<not> truthy (AWS_ACCESS_KEY env) \<or> \<not> truthy (AWS_SECRET_KEY env) \<Longrightarrow>
      speak_text env text = (Browser_TTS text None, [])"
    using assms by (auto simp add: speak_text_def)
  have b: "truthy (AWS_ACCESS_KEY env) \<and> truthy (AWS_SECRET_KEY env) \<and>
      boto3_client env = Inr polly \<and>
      synthesize polly (generative_request text) = Inl e1 \<and> is_service_error e1 \<and>
      synthesize polly (neural_request text) = Inl e2 \<and> is_service_error e2 \<and>
      synthesize polly (standard_request text) = Inl e3 \<Longrightarrow>
      speak_text env text =
        (Browser_TTS text (Some (str_exn e2)),
         [generative_request text, neural_request text, standard_request text])"
    using assms third_tier_run[of "text" env polly e1 e2] by simp
  show ?thesis using a b by blast
qed

theorem client_side_fallback_witness:
  "spoken_text \<noteq> [] \<and>
   \<not> truthy (AWS_ACCESS_KEY no_credentials_env) \<and>
   speak_text no_credentials_env spoken_text = (Browser_TTS spoken_text None, []) \<and>
   synthesize failing_polly (generative_request spoken_text) = Inl (ClientError (U ''first error'')) \<and>
   synthesize failing_polly (neural_request spoken_text) = Inl (ClientError (U ''second error'')) \<and>
   synthesize failing_polly (standard_request spoken_text) = Inl (BotoCoreError (U ''third error'')) \<and>
   speak_text (speech_env_with failing_polly) spoken_text =
     (Browser_TTS spoken_text (Some (U ''second error'')),
      [generative_request spoken_text, neural_request spoken_text,
       standard_request spoken_text])"
proof -
  have n: "\<not> truthy (AWS_ACCESS_KEY no_credentials_env)"
    by (simp add: no_credentials_env_def truthy_def)
  have s: "is_service_error (ClientError (U ''first error'')) \<and>
      is_service_error (ClientError (U ''second error''))"
    by simp
  have m: "str_exn (ClientError (U ''second error'')) = U ''second error''" by simp
  have 1: "speak_text no_credentials_env spoken_text = (Browser_TTS spoken_text None, [])"
    using n client_side_fallback[OF spoken_text_nonempty, of no_credentials_env] by blast
  have 2: "speak_text (speech_env_with failing_polly) spoken_text =
     (Browser_TTS spoken_text (Some (str_exn (ClientError (U ''second error'')))),
      [generative_request spoken_text, neural_request spoken_text,
       standard_request spoken_text])"
    using s failing_polly_outcomes speech_env_with_ready[of failing_polly]
      client_side_fallback[OF spoken_text_nonempty, of "speech_env_with failing_polly"
        failing_polly "ClientError (U ''first error'')" "ClientError (U ''second error'')"
        "BotoCoreError (U ''third error'')"]
    by blast
  show ?thesis
    using n 1 2[unfolded m] failing_polly_outcomes spoken_text_nonempty by blast
qed

text \<open>
  Claim C8 as stated fails: in this run all three tiers fail, the last error observed is
  the third tier's, and the fallback carries the second tier's message instead. And with
  a credential absent, an empty text is answered with the validation error, not with the
  fallback.
\<close>

theorem last_error_counterexample:
  "truthy (AWS_ACCESS_KEY (speech_env_with failing_polly)) \<and>
   truthy (AWS_SECRET_KEY (speech_env_with failing_polly)) \<and>
   boto3_client (speech_env_with failing_polly) = Inr failing_polly \<and>
   synthesize failing_polly (generative_request spoken_text) = Inl (ClientError (U ''first error'')) \<and>
   synthesize failing_polly (neural_request spoken_text) = Inl (ClientError (U ''second error'')) \<and>
   synthesize failing_polly (standard_request spoken_text) = Inl (BotoCoreError (U ''third error'')) \<and>
   snd (speak_text (speech_env_with failing_polly) spoken_text) =
     [generative_request spoken_text, neural_request spoken_text, standard_request spoken_text] \<and>
   fst (speak_text (speech_env_with failing_polly) spoken_text) =
     Browser_TTS spoken_text (Some (U ''second error'')) \<and>
   fst (speak_text (speech_env_with failing_polly) spoken_text) \<noteq>
     Browser_TTS spoken_text (Some (str_exn (BotoCoreError (U ''third error'')))) \<and>
   \<not> truthy (AWS_ACCESS_KEY no_credentials_env) \<and>
   speak_text no_credentials_env [] = (Speak_error (U ''No text provided'') 400, [])"
proof -
  have r: "speak_text (speech_env_with failing_polly) spoken_text =
     (Browser_TTS spoken_text (Some (U ''second error'')),
      [generative_request spoken_text, neural_request spoken_text,
       standard_request spoken_text])"
    using third_tier_run[OF spoken_text_nonempty speech_env_with_ready
        failing_polly_outcomes(1) _ failing_polly_outcomes(2)]
    by (simp add: failing_polly_outcomes(3))
  have d: "U ''second error'' \<noteq> str_exn (BotoCoreError (U ''third error''))"
    by (simp add: U_def)
  have n: "\<not> truthy (AWS_ACCESS_KEY no_credentials_env) \<and>
      speak_text no_credentials_env [] = (Speak_error (U ''No text provided'') 400, [])"
    by (simp add: no_credentials_env_def truthy_def speak_text_def)
  show ?thesis
    using r d n failing_polly_outcomes speech_env_with_ready[of failing_polly] by simp
qed

text \<open>
  Claim C9, as amended. With text and credentials present and the client created: an
  exception of the first or second tier that is not a service error ends the chain (no
  later tier is called) and reaches the outer handler, whose answer is the client-side
  fallback with the text and that exception's message; the next tier is called exactly
  when the tier before it failed with a service error; and the third tier catches every
  exception, service error or not, and answers with the client-side fallback carrying
  the second tier's message.
\<close>

theorem narrow_catch:
  assumes "text \<noteq> []" and "truthy (AWS_ACCESS_KEY env)" and "truthy (AWS_SECRET_KEY env)"
      and "boto3_client env = Inr polly"
  shows "(synthesize polly (generative_request text) = Inl e \<and> \<not> is_service_error e \<longrightarrow>
            speak_text env text =
              (Browser_TTS text (Some (str_exn e)), [generative_request text])) \<and>
         (synthesize polly (generative_request text) = Inl e1 \<and> is_service_error e1 \<and>
          synthesize polly (neural_request text) = Inl e \<and> \<not> is_service_error e \<longrightarrow>
            speak_text env text =
              (Browser_TTS text (Some (str_exn e)),
               [generative_request text, neural_request text])) \<and>
         (synthesize polly (generative_request text) = Inl e1 \<and> is_service_error e1 \<and>
          synthesize polly (neural_request text) = Inl e2 \<and> is_service_error e2 \<and>
          synthesize polly (standard_request text) = Inl e \<longrightarrow>
            speak_text env text =
              (Browser_TTS text (Some (str_exn e2)),
               [generative_request text, neural_request text, standard_request text])) \<and>
         (neural_request text \<in> set (snd (speak_text env text)) \<longleftrightarrow>
            (\<exists>x. synthesize polly (generative_request text) = Inl x \<and> is_service_error x)) \<and>
         (standard_request text \<in> set (snd (speak_text env text)) \<longleftrightarrow>
            (\<exists>x. synthesize polly (generative_request text) = Inl x \<and> is_service_error x) \<and>
            (\<exists>y. synthesize polly (neural_request text) = Inl y \<and> is_service_error y))"
proof -
  have a: "synthesize polly (generative_request text) = Inl e \<and> \<not> is_service_error e \<Longrightarrow>
      speak_text env text = (Browser_TTS text (Some (str_exn e)), [generative_request text])"
    using assms first_tier_escape by blast
  have b: "synthesize polly (generative_request text) = Inl e1 \<and> is_service_error e1 \<and>
      synthesize polly (neural_request text) = Inl e \<and> \<not> is_service_error e \<Longrightarrow>
      speak_text env text =
        (Browser_TTS text (Some (str_exn e)), [generative_request text, neural_request text])"
    using assms second_tier_escape by blast
  have c: "synthesize polly (generative_request text) = Inl e1 \<and> is_service_error e1 \<and>
      synthesize polly (neural_request text) = Inl e2 \<and> is_service_error e2 \<and>
      synthesize polly (standard_request text) = Inl e \<Longrightarrow>
      speak_text env text =
        (Browser_TTS text (Some (str_exn e2)),
         [generative_request text, neural_request text, standard_request text])"
    using assms third_tier_run[of "text" env polly e1 e2] by simp
  have d: "neural_request text \<in> set (snd (speak_text env text)) \<longleftrightarrow>
      (\<exists>x. synthesize polly (generative_request text) = Inl x \<and> is_service_error x)"
    using assms requests_distinct[of "text"]
    by (auto simp add: speak_text_def split: sum.splits)
  have f: "standard_request text \<in> set (snd (speak_text env text)) \<longleftrightarrow>
      (\<exists>x. synthesize polly (generative_request text) = Inl x \<and> is_service_error x) \<and>
      (\<exists>y. synthesize polly (neural_request text) = Inl y \<and> is_service_error y)"
    using assms requests_distinct[of "text"]
    by (auto simp add: speak_text_def split: sum.splits)
  show ?thesis using a b c d f by blast
qed

theorem narrow_catch_witness:
  "spoken_text \<noteq> [] \<and>
   truthy (AWS_ACCESS_KEY (speech_env_with crashing_polly)) \<and>
   truthy (AWS_SECRET_KEY (speech_env_with crashing_polly)) \<and>
   boto3_client (speech_env_with crashing_polly) = Inr crashing_polly \<and>
   synthesize crashing_polly (generative_request spoken_text) =
     Inl (OtherException (U ''unexpected'')) \<and>
   \<not> is_service_error (OtherException (U ''unexpected'')) \<and>
   speak_text (speech_env_with crashing_polly) spoken_text =
     (Browser_TTS spoken_text (Some (U ''unexpected'')), [generative_request spoken_text]) \<and>
   neural_request spoken_text \<notin>
     set (snd (speak_text (speech_env_with crashing_polly) spoken_text)) \<and>
   synthesize second_tier_crash_polly (generative_request spoken_text) =
     Inl (BotoCoreError (U ''first error'')) \<and>
   synthesize second_tier_crash_polly (neural_request spoken_text) =
     Inl (OtherException (U ''unexpected'')) \<and>
   speak_text (speech_env_with second_tier_crash_polly) spoken_text =
     (Browser_TTS spoken_text (Some (U ''unexpected'')),
      [generative_request spoken_text, neural_request spoken_text]) \<and>
   neural_request spoken_text \<in>
     set (snd (speak_text (speech_env_with second_tier_crash_polly) spoken_text)) \<and>
   synthesize third_tier_crash_polly (generative_request spoken_text) =
     Inl (ClientError (U ''first error'')) \<and>
   synthesize third_tier_crash_polly (neural_request spoken_text) =
     Inl (ClientError (U ''second error'')) \<and>
   synthesize third_tier_crash_polly (standard_request spoken_text) =
     Inl (OtherException (U ''unexpected'')) \<and>
   speak_text (speech_env_with third_tier_crash_polly) spoken_text =
     (Browser_TTS spoken_text (Some (U ''second error'')),
      [generative_request spoken_text, neural_request spoken_text,
       standard_request spoken_text]) \<and>
   standard_request spoken_text \<in>
     set (snd (speak_text (speech_env_with third_tier_crash_polly) spoken_text))"
proof -
  have n: "\<not> is_service_error (OtherException (U ''unexpected''))" by simp
  have s: "is_service_error (BotoCoreError (U ''first error'')) \<and>
      is_service_error (ClientError (U ''first error'')) \<and>
      is_service_error (ClientError (U ''second error''))"
    by simp
  have m: "str_exn (OtherException (U ''unexpected'')) = U ''unexpected''"
    "str_exn (ClientError (U ''second error'')) = U ''second error''"
    by simp_all
  note t1 = narrow_catch[OF spoken_text_nonempty speech_env_with_ready,
      of crashing_polly "OtherException (U ''unexpected'')"]
  note t2 = narrow_catch[OF spoken_text_nonempty speech_env_with_ready,
      of second_tier_crash_polly "OtherException (U ''unexpected'')"
        "BotoCoreError (U ''first error'')"]
  note t3 = narrow_catch[OF spoken_text_nonempty speech_env_with_ready,
      of third_tier_crash_polly "OtherException (U ''unexpected'')"
        "ClientError (U ''first error'')" "ClientError (U ''second error'')"]
  have r1: "speak_text (speech_env_with crashing_polly) spoken_text =
      (Browser_TTS spoken_text (Some (str_exn (OtherException (U ''unexpected'')))),
       [generative_request spoken_text])"
    using t1 n crashing_polly_outcomes by blast
  have x1: "neural_request spoken_text \<notin>
      set (snd (speak_text (speech_env_with crashing_polly) spoken_text))"
    using t1 n crashing_polly_outcomes by (metis Inl_inject)
  have r2: "speak_text (speech_env_with second_tier_crash_polly) spoken_text =
      (Browser_TTS spoken_text (Some (str_exn (OtherException (U ''unexpected'')))),
       [generative_request spoken_text, neural_request spoken_text])"
    using t2 n s second_tier_crash_polly_outcomes by blast
  have x2: "neural_request spoken_text \<in>
      set (snd (speak_text (speech_env_with second_tier_crash_polly) spoken_text))"
    using t2 s second_tier_crash_polly_outcomes by blast
  have r3: "speak_text (speech_env_with third_tier_crash_polly) spoken_text =
      (Browser_TTS spoken_text (Some (str_exn (ClientError (U ''second error'')))),
       [generative_request spoken_text, neural_request spoken_text,
        standard_request spoken_text])"
    using t3 s third_tier_crash_polly_outcomes by blast
  have x3: "standard_request spoken_text \<in>
      set (snd (speak_text (speech_env_with third_tier_crash_polly) spoken_text))"
    using t3 s third_tier_crash_polly_outcomes by blast
  show ?thesis
    using r1[unfolded m] x1 r2[unfolded m] x2 r3[unfolded m] x3 n
      crashing_polly_outcomes second_tier_crash_polly_outcomes
      third_tier_crash_polly_outcomes speech_env_with_ready[of crashing_polly]
      spoken_text_nonempty
    by blast
qed

text \<open>
  Claim C9 as stated fails twice. An exception of the first tier that is not a service
  error does not leave \<open>speak_text\<close>: the answer is the client-side fallback. And an
  exception of the third tier that is not a service error is caught like any other: the
  answer is the same client-side fallback as when the third tier fails with a service
  error, and the exception's own message is dropped.
\<close>

theorem narrow_catch_counterexample:
  "synthesize crashing_polly (generative_request spoken_text) =
     Inl (OtherException (U ''unexpected'')) \<and>
   \<not> is_service_error (OtherException (U ''unexpected'')) \<and>
   speak_text (speech_env_with crashing_polly) spoken_text =
     (Browser_TTS spoken_text (Some (U ''unexpected'')), [generative_request spoken_text]) \<and>
   synthesize third_tier_crash_polly (standard_request spoken_text) =
     Inl (OtherException (U ''unexpected'')) \<and>
   speak_text (speech_env_with third_tier_crash_polly) spoken_text =
     (Browser_TTS spoken_text (Some (U ''second error'')),
      [generative_request spoken_text, neural_request spoken_text,
       standard_request spoken_text]) \<and>
   fst (speak_text (speech_env_with third_tier_crash_polly) spoken_text) =
     fst (speak_text (speech_env_with failing_polly) spoken_text)"
proof -
  have 1: "speak_text (speech_env_with crashing_polly) spoken_text =
     (Browser_TTS spoken_text (Some (U ''unexpected'')), [generative_request spoken_text])"
    using first_tier_escape[OF spoken_text_nonempty speech_env_with_ready
        crashing_polly_outcomes]
    by simp
  have 2: "speak_text (speech_env_with third_tier_crash_polly) spoken_text =
     (Browser_TTS spoken_text (Some (U ''second error'')),
      [generative_request spoken_text, neural_request spoken_text,
       standard_request spoken_text])"
    using third_tier_run[OF spoken_text_nonempty speech_env_with_ready
        third_tier_crash_polly_outcomes(1) _ third_tier_crash_polly_outcomes(2)]
    by (simp add: third_tier_crash_polly_outcomes(3))
  have 3: "speak_text (speech_env_with failing_polly) spoken_text =
     (Browser_TTS spoken_text (Some (U ''second error'')),
      [generative_request spoken_text, neural_request spoken_text,
       standard_request spoken_text])"
    using third_tier_run[OF spoken_text_nonempty speech_env_with_ready
        failing_polly_outcomes(1) _ failing_polly_outcomes(2)]
    by (simp add: failing_polly_outcomes(3))
  show ?thesis
    using 1 2 3 crashing_polly_outcomes third_tier_crash_polly_outcomes(3) by simp
qed

end
